theory Spec2Isabelle
  imports Main "HOL-Library.State_Monad"
begin

section \<open>The deferred cleanup engine of the state store (state/cleanup.go)\<close>

text \<open>
  The engine runs against a database and a family of entity objects (units, machines,
  the storage backend, relations) whose code lives outside cleanup.go. The embedding keeps
  the code of cleanup.go as it is written and takes those collaborators as parameters:
  a record of functions over an arbitrary world \<open>'w\<close>, each returning its Go results and
  the world it leaves behind. Every theorem below holds for every such record.

  Conventions of the embedding:
  \<^item> a Go \<open>error\<close> result is an \<open>error option\<close>, \<open>None\<close> being \<open>nil\<close>; a Go function
    returning \<open>(v, err)\<close> returns \<open>error + v\<close>, and where the code goes on after logging the
    error the value is Go's zero value (\<open>nil\<close> slice, \<open>false\<close>);
  \<^item> a panic (nil pointer dereference, slice bounds) and exhausted recursion fuel are
    values of type \<open>abort\<close>;
  \<^item> the cleanups collection is a list of documents in the order the store returns them;
    \<open>Find(query).Iter()\<close> delivers the documents matching at the time of the query;
  \<^item> everything the code does to the outside (collaborator calls with their results,
    transactions, log lines, the hand-over of a document to its handler) is appended to a
    journal, so that "calls", "logs" and "schedules" are statements about the journal.
\<close>

subsection \<open>Time, kinds, documents\<close>

text \<open>A \<open>time.Time\<close> is the number of nanoseconds since Go's zero time \<open>time.Time{}\<close>.\<close>

type_synonym time = int

definition forceTimeout :: int where
  "forceTimeout = 0"

definition asap :: time where
  "asap = 0"

type_synonym cleanupKind = string

definition cleanupRelationSettingsK :: cleanupKind where
  "cleanupRelationSettingsK = ''settings''"
definition cleanupUnitsForDyingApplicationK :: cleanupKind where
  "cleanupUnitsForDyingApplicationK = ''units''"
definition cleanupCharmK :: cleanupKind where
  "cleanupCharmK = ''charm''"
definition cleanupDyingUnitK :: cleanupKind where
  "cleanupDyingUnitK = ''dyingUnit''"
definition cleanupForceDestroyedUnitK :: cleanupKind where
  "cleanupForceDestroyedUnitK = ''forceDestroyUnit''"
definition cleanupForceRemoveUnitK :: cleanupKind where
  "cleanupForceRemoveUnitK = ''forceRemoveUnit''"
definition cleanupRemovedUnitK :: cleanupKind where
  "cleanupRemovedUnitK = ''removedUnit''"
definition cleanupApplicationsForDyingModelK :: cleanupKind where
  "cleanupApplicationsForDyingModelK = ''applications''"
definition cleanupDyingMachineK :: cleanupKind where
  "cleanupDyingMachineK = ''dyingMachine''"
definition cleanupForceDestroyedMachineK :: cleanupKind where
  "cleanupForceDestroyedMachineK = ''machine''"
definition cleanupAttachmentsForDyingStorageK :: cleanupKind where
  "cleanupAttachmentsForDyingStorageK = ''storageAttachments''"
definition cleanupAttachmentsForDyingVolumeK :: cleanupKind where
  "cleanupAttachmentsForDyingVolumeK = ''volumeAttachments''"
definition cleanupAttachmentsForDyingFilesystemK :: cleanupKind where
  "cleanupAttachmentsForDyingFilesystemK = ''filesystemAttachments''"
definition cleanupModelsForDyingControllerK :: cleanupKind where
  "cleanupModelsForDyingControllerK = ''models''"
definition cleanupMachinesForDyingModelK :: cleanupKind where
  "cleanupMachinesForDyingModelK = ''modelMachines''"
definition cleanupDyingUnitResourcesK :: cleanupKind where
  "cleanupDyingUnitResourcesK = ''dyingUnitResources''"
definition cleanupResourceBlobK :: cleanupKind where
  "cleanupResourceBlobK = ''resourceBlob''"
definition cleanupStorageForDyingModelK :: cleanupKind where
  "cleanupStorageForDyingModelK = ''modelStorage''"

lemmas kind_defs =
  cleanupRelationSettingsK_def cleanupUnitsForDyingApplicationK_def cleanupCharmK_def
  cleanupDyingUnitK_def cleanupForceDestroyedUnitK_def cleanupForceRemoveUnitK_def
  cleanupRemovedUnitK_def cleanupApplicationsForDyingModelK_def cleanupDyingMachineK_def
  cleanupForceDestroyedMachineK_def cleanupAttachmentsForDyingStorageK_def
  cleanupAttachmentsForDyingVolumeK_def cleanupAttachmentsForDyingFilesystemK_def
  cleanupModelsForDyingControllerK_def cleanupMachinesForDyingModelK_def
  cleanupDyingUnitResourcesK_def cleanupResourceBlobK_def cleanupStorageForDyingModelK_def

definition knownKinds :: "cleanupKind list" where
  "knownKinds =
    [cleanupRelationSettingsK, cleanupCharmK, cleanupUnitsForDyingApplicationK,
     cleanupDyingUnitK, cleanupForceDestroyedUnitK, cleanupForceRemoveUnitK,
     cleanupDyingUnitResourcesK, cleanupRemovedUnitK, cleanupApplicationsForDyingModelK,
     cleanupDyingMachineK, cleanupForceDestroyedMachineK, cleanupAttachmentsForDyingStorageK,
     cleanupAttachmentsForDyingVolumeK, cleanupAttachmentsForDyingFilesystemK,
     cleanupModelsForDyingControllerK, cleanupMachinesForDyingModelK, cleanupResourceBlobK,
     cleanupStorageForDyingModelK]"

text \<open>
  A \<open>bson.Raw\<close> argument, as far as the handlers look at it: they only ever unmarshal an
  argument into a Go \<open>bool\<close>. \<open>RawBool b\<close> is a raw value that unmarshals to \<open>b\<close>,
  \<open>RawOther k\<close> one (of BSON kind \<open>k\<close>) that does not unmarshal into a \<open>bool\<close>.
\<close>

datatype bsonRaw = RawBool bool | RawOther string

text \<open>
  The stored cleanup document. \<open>When\<close> is \<open>None\<close> for a document without a \<open>when\<close>
  field (written before the field existed).
\<close>

record cleanupDoc =
  DocID :: string
  Kind :: cleanupKind
  When :: "time option"
  Prefix :: string
  Args :: "bsonRaw list"

subsection \<open>Errors\<close>

datatype fmtArg = S string | N nat

datatype error =
    NotFound string
  | ErrUnitHasSubordinates
  | ErrUnitHasStorageAttachments
  | ContainsFilesystem string
  | TypeError string
  | Failure string
  | Errorf string "fmtArg list"
  | Annotate error string "fmtArg list"
  | Trace error

text \<open>\<open>errors.Cause\<close>, \<open>errors.IsNotFound\<close>, \<open>IsContainsFilesystem\<close>.\<close>

fun Cause :: "error \<Rightarrow> error" where
  "Cause (Annotate e m as) = Cause e"
| "Cause (Trace e) = Cause e"
| "Cause e = e"

definition IsNotFound :: "error \<Rightarrow> bool" where
  "IsNotFound err = (case Cause err of NotFound m \<Rightarrow> True | _ \<Rightarrow> False)"

definition IsContainsFilesystem :: "error \<Rightarrow> bool" where
  "IsContainsFilesystem err = (case Cause err of ContainsFilesystem m \<Rightarrow> True | _ \<Rightarrow> False)"

text \<open>\<open>errors.Trace\<close> and \<open>errors.Annotate\<close> of a possibly nil error: nil stays nil.\<close>

definition TraceN :: "error option \<Rightarrow> error option" where
  "TraceN err = map_option Trace err"

definition AnnotateN :: "error option \<Rightarrow> string \<Rightarrow> fmtArg list \<Rightarrow> error option" where
  "AnnotateN err m as = map_option (\<lambda>e. Annotate e m as) err"

datatype abort = NilDereference | SliceBounds | OutOfFuel

subsection \<open>Entity handles\<close>

text \<open>
  The local copy of a unit or machine document held by a \<open>*Unit\<close> or \<open>*Machine\<close>, with
  the fields cleanup.go reads: \<open>unit.Name()\<close>, \<open>unit.SubordinateNames()\<close>,
  \<open>machine.doc.Id\<close>, \<open>machine.doc.Principals\<close>, \<open>machine.IsManager()\<close>,
  \<open>machine.HasVote()\<close>.
\<close>

record Unit =
  Name :: string
  Subordinates :: "string list"

record Machine =
  Id :: string
  Principals :: "string list"
  IsManager :: bool
  HasVote :: bool

subsection \<open>Collaborator calls\<close>

text \<open>Calls whose only result is an \<open>error\<close>. Entities are named by their ids.\<close>

datatype errcall =
    NewStorageBackend
  | RelationUnit string string
  | PrepareLeaveScope string string
  | LeaveScope string string
  | DetachStorage string string bool
  | RemoveStorageAttachment string string bool
  | DestroyStorageInstance string bool bool
  | ReleaseStorageInstance string bool bool
  | DestroyUnitStorageAttachments string
  | UnitEnsureDead string
  | ApplyDestroyUnitOperation string bool bool
  | RemoveUpgradeSeriesLock string
  | MachineRemove string
  | MachineEnsureDead string
  | RemoveControllerMachine string
  | DestroyFilesystem string
  | DetachFilesystem string string
  | GetFilesystem string
  | FilesystemSetStatusDetached string
  | RemoveFilesystemAttachment string string
  | RemoveVolumeAttachmentPlan string string
  | RemoveFilesystem string
  | DetachVolume string string
  | IterClose string

text \<open>Calls returning \<open>([]error, error)\<close>.\<close>

datatype multicall =
    UnitDestroyWithForce string bool
  | UnitRemoveWithForce string bool

text \<open>Calls returning a slice of entities (their ids) and an error.\<close>

datatype listcall =
    RelationsJoined string
  | RelationsInScope string
  | UnitStorageAttachments string
  | AllStorageInstances
  | AliveUnitsOfApplication string
  | Containers string
  | HostFilesystems string
  | RemovePortsOps string

text \<open>Calls returning a slice of attachments, each a (host, attached entity) pair.\<close>

datatype attcall =
    MachineFilesystemAttachments string
  | MachineVolumeAttachments string

datatype boolcall =
    IsManual string
  | IsDetachableFilesystemTag string
  | IsDetachableVolumeTag string

datatype strcall =
    FilesystemVolume string

text \<open>A \<open>txn.Op\<close>: collection, document id, and what to do.\<close>

datatype txnOp =
    InsertOp string string cleanupDoc
  | RemoveOp string string
  | UpdateOp string string string
  | OpaqueOp string

datatype level = Debug | Info | Warning | Error

datatype logArg = V fmtArg | E "error option" | EL "error list"

datatype event =
    EvUnit string "error + Unit"
  | EvUnitRefresh string "error + Unit"
  | EvMachine string "error + Machine"
  | EvMachineRefresh string "error + Machine"
  | EvExec errcall "error option"
  | EvMulti multicall "error list \<times> error option"
  | EvListing listcall "error + string list"
  | EvAttachments attcall "error + (string \<times> string) list"
  | EvTest boolcall "error + bool"
  | EvStr strcall "error + string"
  | EvNow time
  | EvNewObjectId string
  | EvTxn "txnOp list" "error option"
  | EvLog level string "logArg list"
  | EvDispatch cleanupDoc
  | EvHandler cleanupKind string "bsonRaw list" "error option"

text \<open>
  The collaborators. \<open>otherHandler\<close> stands for the handlers of the kinds that no
  statement below looks into; they are run by the dispatcher like the others.
\<close>

record 'w collab =
  unitDoc :: "string \<Rightarrow> 'w \<Rightarrow> (error + Unit) \<times> 'w"
  unitDocRefresh :: "string \<Rightarrow> 'w \<Rightarrow> (error + Unit) \<times> 'w"
  machineDoc :: "string \<Rightarrow> 'w \<Rightarrow> (error + Machine) \<times> 'w"
  machineDocRefresh :: "string \<Rightarrow> 'w \<Rightarrow> (error + Machine) \<times> 'w"
  exec :: "errcall \<Rightarrow> 'w \<Rightarrow> error option \<times> 'w"
  multi :: "multicall \<Rightarrow> 'w \<Rightarrow> (error list \<times> error option) \<times> 'w"
  listing :: "listcall \<Rightarrow> 'w \<Rightarrow> (error + string list) \<times> 'w"
  attachments :: "attcall \<Rightarrow> 'w \<Rightarrow> (error + (string \<times> string) list) \<times> 'w"
  test :: "boolcall \<Rightarrow> 'w \<Rightarrow> (error + bool) \<times> 'w"
  str :: "strcall \<Rightarrow> 'w \<Rightarrow> (error + string) \<times> 'w"
  Now :: "'w \<Rightarrow> time"
  NewObjectId :: "'w \<Rightarrow> string \<times> 'w"
  RunTransaction :: "txnOp list \<Rightarrow> 'w \<Rightarrow> error option \<times> 'w"
  otherHandler :: "cleanupKind \<Rightarrow> string \<Rightarrow> bsonRaw list \<Rightarrow> 'w \<Rightarrow> error option \<times> 'w"

subsection \<open>The state and its primitive actions\<close>

record 'w State =
  modelUUID :: string
  cleanupsC :: "cleanupDoc list"
  world :: 'w
  journal :: "event list"

abbreviation return :: "'a \<Rightarrow> ('s, 'a) state" where
  "return \<equiv> State_Monad.return"

definition jot :: "event \<Rightarrow> 'w State \<Rightarrow> 'w State" where
  "jot ev s = s\<lparr>journal := journal s @ [ev]\<rparr>"

definition logf :: "level \<Rightarrow> string \<Rightarrow> logArg list \<Rightarrow> ('w State, unit) state" where
  "logf l m as = State (\<lambda>s. ((), jot (EvLog l m as) s))"

text \<open>
  One collaborator call: run it on the world, store the world it returns, journal the call
  with its result.
\<close>

definition call ::
  "('w \<Rightarrow> 'r \<times> 'w) \<Rightarrow> ('r \<Rightarrow> event) \<Rightarrow> ('w State, 'r) state" where
  "call f ev = State (\<lambda>s. case f (world s) of (r, w') \<Rightarrow> (r, jot (ev r) (s\<lparr>world := w'\<rparr>)))"

text \<open>A lookup by id returns the document with that id.\<close>

definition stUnit :: "'w collab \<Rightarrow> string \<Rightarrow> ('w State, error + Unit) state" where
  "stUnit C name =
     call (\<lambda>w. case unitDoc C name w of (r, w') \<Rightarrow> (map_sum id (\<lambda>u. u\<lparr>Name := name\<rparr>) r, w'))
       (EvUnit name)"

definition unitRefresh :: "'w collab \<Rightarrow> Unit \<Rightarrow> ('w State, error + Unit) state" where
  "unitRefresh C u =
     call (\<lambda>w. case unitDocRefresh C (Name u) w of
                 (r, w') \<Rightarrow> (map_sum id (\<lambda>u'. u'\<lparr>Name := Name u\<rparr>) r, w'))
       (EvUnitRefresh (Name u))"

definition stMachine :: "'w collab \<Rightarrow> string \<Rightarrow> ('w State, error + Machine) state" where
  "stMachine C mid =
     call (\<lambda>w. case machineDoc C mid w of (r, w') \<Rightarrow> (map_sum id (\<lambda>m. m\<lparr>Id := mid\<rparr>) r, w'))
       (EvMachine mid)"

definition machineRefresh :: "'w collab \<Rightarrow> Machine \<Rightarrow> ('w State, error + Machine) state" where
  "machineRefresh C m =
     call (\<lambda>w. case machineDocRefresh C (Id m) w of
                 (r, w') \<Rightarrow> (map_sum id (\<lambda>m'. m'\<lparr>Id := Id m\<rparr>) r, w'))
       (EvMachineRefresh (Id m))"

definition do_exec :: "'w collab \<Rightarrow> errcall \<Rightarrow> ('w State, error option) state" where
  "do_exec C c = call (exec C c) (EvExec c)"

definition do_multi ::
  "'w collab \<Rightarrow> multicall \<Rightarrow> ('w State, error list \<times> error option) state" where
  "do_multi C c = call (multi C c) (EvMulti c)"

definition do_listing :: "'w collab \<Rightarrow> listcall \<Rightarrow> ('w State, error + string list) state" where
  "do_listing C c = call (listing C c) (EvListing c)"

definition do_attachments ::
  "'w collab \<Rightarrow> attcall \<Rightarrow> ('w State, error + (string \<times> string) list) state" where
  "do_attachments C c = call (attachments C c) (EvAttachments c)"

definition do_test :: "'w collab \<Rightarrow> boolcall \<Rightarrow> ('w State, error + bool) state" where
  "do_test C c = call (test C c) (EvTest c)"

definition do_str :: "'w collab \<Rightarrow> strcall \<Rightarrow> ('w State, error + string) state" where
  "do_str C c = call (str C c) (EvStr c)"

definition clockNow :: "'w collab \<Rightarrow> ('w State, time) state" where
  "clockNow C = call (\<lambda>w. (Now C w, w)) EvNow"

definition newObjectId :: "'w collab \<Rightarrow> ('w State, string) state" where
  "newObjectId C = call (NewObjectId C) EvNewObjectId"

definition do_otherHandler ::
  "'w collab \<Rightarrow> cleanupKind \<Rightarrow> string \<Rightarrow> bsonRaw list \<Rightarrow> ('w State, error option) state" where
  "do_otherHandler C k prefix args = call (otherHandler C k prefix args) (EvHandler k prefix args)"

text \<open>Go's zero value where the code carries on after an error.\<close>

definition valueOr :: "'a \<Rightarrow> error + 'a \<Rightarrow> 'a" where
  "valueOr z r = (case r of Inl err \<Rightarrow> z | Inr v \<Rightarrow> v)"

definition errOf :: "error + 'a \<Rightarrow> error option" where
  "errOf r = (case r of Inl err \<Rightarrow> Some err | Inr v \<Rightarrow> None)"

subsection \<open>Transactions on the cleanups collection\<close>

definition cleanupsCName :: string where
  "cleanupsCName = ''cleanups''"

definition machinesCName :: string where
  "machinesCName = ''machines''"

text \<open>
  What a committed operation does to the cleanups collection (mgo/txn: an insert of an
  existing id and a removal of a missing id are skipped, the transaction goes on). Operations
  on other collections change the world, which is the collaborator's business.
\<close>

definition applyOp :: "cleanupDoc list \<Rightarrow> txnOp \<Rightarrow> cleanupDoc list" where
  "applyOp docs op =
     (case op of
        InsertOp c i d \<Rightarrow>
          (if c = cleanupsCName \<and> i \<notin> set (map DocID docs) then docs @ [d] else docs)
      | RemoveOp c i \<Rightarrow>
          (if c = cleanupsCName then filter (\<lambda>d. DocID d \<noteq> i) docs else docs)
      | UpdateOp c i u \<Rightarrow> docs
      | OpaqueOp d \<Rightarrow> docs)"

definition runTransaction :: "'w collab \<Rightarrow> txnOp list \<Rightarrow> ('w State, error option) state" where
  "runTransaction C ops =
     State (\<lambda>s. case RunTransaction C ops (world s) of
       (r, w') \<Rightarrow>
         (r, jot (EvTxn ops r)
               (s\<lparr>world := w',
                  cleanupsC := (if r = None then foldl applyOp (cleanupsC s) ops
                                else cleanupsC s)\<rparr>)))"

text \<open>
  \<open>newCleanupAtOp\<close>: the document gets a fresh object id; \<open>scheduleForceCleanup\<close> passes no
  arguments.
\<close>

definition newCleanupAtOp ::
  "'w collab \<Rightarrow> time \<Rightarrow> cleanupKind \<Rightarrow> string \<Rightarrow> bsonRaw list \<Rightarrow> ('w State, txnOp) state" where
  "newCleanupAtOp C when kind prefix args = do {
     oid \<leftarrow> newObjectId C;
     return (InsertOp cleanupsCName oid
       \<lparr>DocID = oid, Kind = kind, When = Some when, Prefix = prefix, Args = args\<rparr>)
   }"

definition newCleanupOp ::
  "'w collab \<Rightarrow> cleanupKind \<Rightarrow> string \<Rightarrow> bsonRaw list \<Rightarrow> ('w State, txnOp) state" where
  "newCleanupOp C kind prefix args = newCleanupAtOp C asap kind prefix args"

definition scheduleForceCleanup :: "'w collab \<Rightarrow> cleanupKind \<Rightarrow> string \<Rightarrow> ('w State, unit) state" where
  "scheduleForceCleanup C kind name = do {
     now \<leftarrow> clockNow C;
     let deadline = now + forceTimeout;
     op \<leftarrow> newCleanupAtOp C deadline kind name [];
     err \<leftarrow> runTransaction C [op];
     (case err of
        Some e \<Rightarrow> logf Warning ''couldn't schedule %s cleanup: %v'' [V (S kind), E (Some e)]
      | None \<Rightarrow> return ())
   }"

subsection \<open>Cleanup arguments\<close>

definition UnmarshalBool :: "bsonRaw \<Rightarrow> error + bool" where
  "UnmarshalBool raw = (case raw of RawBool b \<Rightarrow> Inr b | RawOther k \<Rightarrow> Inl (TypeError k))"

definition quoted :: "string \<Rightarrow> string" where
  "quoted s = CHR 0x27 # s @ [CHR 0x27]"

definition IsNotFoundN :: "error option \<Rightarrow> bool" where
  "IsNotFoundN err = (case err of None \<Rightarrow> False | Some e \<Rightarrow> IsNotFound e)"

text \<open>
  The argument block shared, word for word up to the first message, by
  \<open>cleanupDyingUnit\<close> and \<open>cleanupUnitsForDyingApplication\<close>: both flags start as
  \<open>false\<close>, and an empty argument list leaves them so.
\<close>

definition unmarshalDestroyStorageForce :: "bsonRaw list \<Rightarrow> error + (bool \<times> bool)" where
  "unmarshalDestroyStorageForce cleanupArgs =
     (let n = length cleanupArgs in
      if n > 0 then
        if n > 2 then Inl (Errorf ''expected 0-2 arguments, got %d'' [N n])
        else
          (case UnmarshalBool (cleanupArgs ! 0) of
             Inl err \<Rightarrow> Inl (Annotate err ''unmarshalling cleanup args'' [])
           | Inr destroyStorage \<Rightarrow>
               if n \<ge> 2 then
                 (case UnmarshalBool (cleanupArgs ! 1) of
                    Inl err \<Rightarrow>
                      Inl (Annotate err (''unmarshalling cleanup arg '' @ quoted ''force'') [])
                  | Inr force \<Rightarrow> Inr (destroyStorage, force))
               else Inr (destroyStorage, False))
      else Inr (False, False))"

subsection \<open>Loops with early return, iterators\<close>

text \<open>
  \<open>for _, x := range xs { body }\<close> where the body may return from the enclosing
  function: the body yields \<open>Some r\<close> for \<open>return r\<close> and \<open>None\<close> for falling through
  or \<open>continue\<close>. \<open>foldEach\<close> also threads a value the loop accumulates.
\<close>

fun forEach :: "('a \<Rightarrow> ('s, 'r option) state) \<Rightarrow> 'a list \<Rightarrow> ('s, 'r option) state" where
  "forEach body [] = return None"
| "forEach body (x # xs) = do {
     r \<leftarrow> body x;
     case r of Some v \<Rightarrow> return (Some v) | None \<Rightarrow> forEach body xs
   }"

fun foldEach ::
  "('a \<Rightarrow> 'b \<Rightarrow> ('s, 'r + 'b) state) \<Rightarrow> 'a list \<Rightarrow> 'b \<Rightarrow> ('s, 'r + 'b) state" where
  "foldEach body [] acc = return (Inr acc)"
| "foldEach body (x # xs) acc = do {
     r \<leftarrow> body x acc;
     case r of Inl v \<Rightarrow> return (Inl v) | Inr acc' \<Rightarrow> foldEach body xs acc'
   }"

text \<open>
  An iterator delivers the documents of its query; whether the iteration failed is what
  \<open>iter.Close()\<close> reports. \<open>closeIter\<close> is deferred: it sees the error the function is
  about to return and may replace a nil one.
\<close>

definition iterate :: "'w collab \<Rightarrow> listcall \<Rightarrow> ('w State, string list) state" where
  "iterate C c = do { r \<leftarrow> do_listing C c; return (valueOr [] r) }"

definition closeIter ::
  "'w collab \<Rightarrow> string \<Rightarrow> error option \<Rightarrow> string \<Rightarrow> ('w State, error option) state" where
  "closeIter C iter errOut message = do {
     err \<leftarrow> do_exec C (IterClose iter);
     if err = None then return errOut
     else
       let err = AnnotateN err message [] in
       if errOut = None then return err
       else do { logf Error ''%v'' [E err]; return errOut }
   }"

subsection \<open>Unit storage\<close>

definition detachStorageAttachment ::
  "'w collab \<Rightarrow> string \<Rightarrow> bool \<Rightarrow> bool \<Rightarrow> string \<Rightarrow> ('w State, error option) state" where
  "detachStorageAttachment C unitTag remove force storageTag = do {
     err \<leftarrow> do_exec C (DetachStorage storageTag unitTag force);
     if IsNotFoundN err then return None
     else if err \<noteq> None \<and> \<not> force then return err
     else do {
       (if err \<noteq> None
        then logf Warning ''could not detach storage %v for unit %v: %v''
               [V (S storageTag), V (S unitTag), E err]
        else return ());
       if \<not> remove then return None
       else do {
         err \<leftarrow> do_exec C (RemoveStorageAttachment storageTag unitTag force);
         if IsNotFoundN err then return None
         else if err \<noteq> None \<and> \<not> force then return err
         else do {
           (if err \<noteq> None
            then logf Warning
                   ''could not remove storage attachment for storage %v for unit %v: %v''
                   [V (S storageTag), V (S unitTag), E err]
            else return ());
           return None
         }
       }
     }
   }"

definition cleanupUnitStorageAttachments ::
  "'w collab \<Rightarrow> string \<Rightarrow> bool \<Rightarrow> bool \<Rightarrow> ('w State, error option) state" where
  "cleanupUnitStorageAttachments C unitTag remove force = do {
     err \<leftarrow> do_exec C NewStorageBackend;
     if err \<noteq> None then return err
     else do {
       r \<leftarrow> do_listing C (UnitStorageAttachments unitTag);
       case r of
         Inl err \<Rightarrow> return (Some err)
       | Inr storageAttachments \<Rightarrow>
           forEach (detachStorageAttachment C unitTag remove force) storageAttachments
     }
   }"

definition destroyStorageInstance ::
  "'w collab \<Rightarrow> bool \<Rightarrow> string \<Rightarrow> ('w State, error option) state" where
  "destroyStorageInstance C force storageTag = do {
     err \<leftarrow> do_exec C (DestroyStorageInstance storageTag True force);
     if IsNotFoundN err then return None
     else return err
   }"

definition cleanupUnitStorageInstances ::
  "'w collab \<Rightarrow> string \<Rightarrow> bool \<Rightarrow> ('w State, error option) state" where
  "cleanupUnitStorageInstances C unitTag force = do {
     err \<leftarrow> do_exec C NewStorageBackend;
     if err \<noteq> None then return err
     else do {
       r \<leftarrow> do_listing C (UnitStorageAttachments unitTag);
       case r of
         Inl err \<Rightarrow> return (Some err)
       | Inr storageAttachments \<Rightarrow> forEach (destroyStorageInstance C force) storageAttachments
     }
   }"

subsection \<open>cleanupDyingUnit\<close>

text \<open>The body of the loop over the joined relations.\<close>

definition prepareLeaveScope ::
  "'w collab \<Rightarrow> Unit \<Rightarrow> bool \<Rightarrow> string \<Rightarrow> ('w State, error option) state" where
  "prepareLeaveScope C unit force relation = do {
     err \<leftarrow> do_exec C (RelationUnit relation (Name unit));
     if IsNotFoundN err then return None
     else if err \<noteq> None then
       (if \<not> force then return err
        else do {
          logf Warning
            ''could not get unit relation for unit %v during dying unit cleanup: %v''
            [V (S (Name unit)), E err];
          return None
        })
     else do {
       err \<leftarrow> do_exec C (PrepareLeaveScope relation (Name unit));
       if err \<noteq> None then
         (if \<not> force then return err
          else do {
            logf Warning
              ''could not prepare to leave scope for relation %v for unit %v during dying unit cleanup: %v''
              [V (S relation), V (S (Name unit)), E err];
            return None
          })
       else return None
     }
   }"

definition cleanupDyingUnit ::
  "'w collab \<Rightarrow> string \<Rightarrow> bsonRaw list \<Rightarrow> ('w State, error option) state" where
  "cleanupDyingUnit C name cleanupArgs =
     (case unmarshalDestroyStorageForce cleanupArgs of
        Inl err \<Rightarrow> return (Some err)
      | Inr (destroyStorage, force) \<Rightarrow> do {
          u \<leftarrow> stUnit C name;
          case u of
            Inl err \<Rightarrow> if IsNotFound err then return None else return (Some err)
          | Inr unit \<Rightarrow> do {
              r \<leftarrow> do_listing C (RelationsJoined (Name unit));
              if errOf r \<noteq> None \<and> \<not> force then return (errOf r)
              else do {
                (if errOf r \<noteq> None
                 then logf Warning
                        ''could not get joined relations for unit %v during dying unit cleanup: %v''
                        [V (S (Name unit)), E (errOf r)]
                 else return ());
                err \<leftarrow> forEach (prepareLeaveScope C unit force) (valueOr [] r);
                if err \<noteq> None then return err
                else do {
                  (if force then scheduleForceCleanup C cleanupForceDestroyedUnitK name
                   else return ());
                  if destroyStorage then cleanupUnitStorageInstances C (Name unit) force
                  else cleanupUnitStorageAttachments C (Name unit) False force
                }
              }
            }
        })"

subsection \<open>cleanupForceDestroyedUnit, cleanupForceRemoveUnit\<close>

text \<open>
  The body of the loop over the subordinates. When the lookup of a subordinate fails with
  an error other than not-found, the code logs a warning and goes on to call
  \<open>subUnit.DestroyWithForce\<close> on the nil \<open>*Unit\<close> the lookup returned: a nil pointer
  dereference, which ends the handler with \<open>NilDereference\<close>.
\<close>

definition destroySubordinate :: "'w collab \<Rightarrow> string \<Rightarrow> ('w State, abort option) state" where
  "destroySubordinate C subName = do {
     r \<leftarrow> stUnit C subName;
     case r of
       Inl err \<Rightarrow>
         if IsNotFound err then return None
         else do {
           logf Warning ''couldn't get subordinate %q to force destroy: %v''
             [V (S subName), E (Some err)];
           return (Some NilDereference)
         }
     | Inr subUnit \<Rightarrow> do {
         (opErrs, err) \<leftarrow> do_multi C (UnitDestroyWithForce (Name subUnit) True);
         (if opErrs \<noteq> [] \<or> err \<noteq> None
          then logf Warning ''errors while destroying subordinate %q: %v, %v''
                 [V (S subName), E err, EL opErrs]
          else return ());
         return None
       }
   }"

definition leaveScope ::
  "'w collab \<Rightarrow> string \<Rightarrow> Unit \<Rightarrow> string \<Rightarrow> ('w State, error option) state" where
  "leaveScope C unitId unit relation = do {
     err \<leftarrow> do_exec C (RelationUnit relation (Name unit));
     if err \<noteq> None then do {
       logf Warning ''couldn't get relation unit for %q in %q: %v''
         [V (S (Name unit)), V (S relation), E err];
       return None
     }
     else do {
       err \<leftarrow> do_exec C (LeaveScope relation (Name unit));
       (if err \<noteq> None
        then logf Warning ''unit %q couldn't leave scope of relation %q: %v''
               [V (S unitId), V (S relation), E err]
        else return ());
       return None
     }
   }"

definition removeStorageAttachment ::
  "'w collab \<Rightarrow> Unit \<Rightarrow> string \<Rightarrow> ('w State, error option) state" where
  "removeStorageAttachment C unit attachment = do {
     err \<leftarrow> do_exec C (RemoveStorageAttachment attachment (Name unit) True);
     (if err \<noteq> None
      then logf Warning ''couldn't remove storage attachment %q for %q: %v''
             [V (S attachment), V (S (Name unit)), E err]
      else return ());
     return None
   }"

definition forceRemoveUnitStorageAttachments ::
  "'w collab \<Rightarrow> Unit \<Rightarrow> ('w State, error option) state" where
  "forceRemoveUnitStorageAttachments C unit = do {
     err \<leftarrow> do_exec C NewStorageBackend;
     if err \<noteq> None then return (AnnotateN err ''couldn't get storage backend'' [])
     else do {
       err \<leftarrow> do_exec C (DestroyUnitStorageAttachments (Name unit));
       if err \<noteq> None
       then return (AnnotateN err ''destroying storage attachments for %q'' [S (Name unit)])
       else do {
         r \<leftarrow> do_listing C (UnitStorageAttachments (Name unit));
         case r of
           Inl err \<Rightarrow>
             return (Some (Annotate err ''getting storage attachments for %q'' [S (Name unit)]))
         | Inr storageAttachments \<Rightarrow> do {
             forEach (removeStorageAttachment C unit) storageAttachments;
             return None
           }
       }
     }
   }"

definition retryable :: "error option \<Rightarrow> bool" where
  "retryable err = (err = Some ErrUnitHasSubordinates \<or> err = Some ErrUnitHasStorageAttachments)"

definition cleanupForceDestroyedUnit ::
  "'w collab \<Rightarrow> string \<Rightarrow> ('w State, abort + error option) state" where
  "cleanupForceDestroyedUnit C unitId = do {
     u \<leftarrow> stUnit C unitId;
     case u of
       Inl err \<Rightarrow>
         if IsNotFound err then do {
           logf Debug ''no need to force unit to dead %q'' [V (S unitId)];
           return (Inr None)
         }
         else return (Inr (Some (Trace err)))
     | Inr unit \<Rightarrow> do {
         panicked \<leftarrow> forEach (destroySubordinate C) (Subordinates unit);
         case panicked of
           Some a \<Rightarrow> return (Inl a)
         | None \<Rightarrow> do {
             r \<leftarrow> do_listing C (RelationsInScope (Name unit));
             (case r of
                Inr relations \<Rightarrow> do {
                  forEach (leaveScope C unitId unit) relations;
                  return ()
                }
              | Inl err \<Rightarrow>
                  logf Warning ''couldn't get in-scope relations for unit %q: %v''
                    [V (S unitId), E (Some err)]);
             err \<leftarrow> forceRemoveUnitStorageAttachments C unit;
             (if err \<noteq> None
              then logf Warning ''couldn't remove storage attachments for %q: %v''
                     [V (S unitId), E err]
              else return ());
             err \<leftarrow> do_exec C (UnitEnsureDead (Name unit));
             if retryable err then return (Inr err)
             else do {
               (if err \<noteq> None
                then logf Warning ''couldn't set unit %q dead: %v'' [V (S unitId), E err]
                else return ());
               scheduleForceCleanup C cleanupForceRemoveUnitK unitId;
               return (Inr None)
             }
           }
       }
   }"

definition cleanupForceRemoveUnit :: "'w collab \<Rightarrow> string \<Rightarrow> ('w State, error option) state" where
  "cleanupForceRemoveUnit C unitId = do {
     u \<leftarrow> stUnit C unitId;
     case u of
       Inl err \<Rightarrow>
         if IsNotFound err then do {
           logf Debug ''no need to force remove unit %q'' [V (S unitId)];
           return None
         }
         else return (Some (Trace err))
     | Inr unit \<Rightarrow> do {
         (opErrs, err) \<leftarrow> do_multi C (UnitRemoveWithForce (Name unit) True);
         (if opErrs \<noteq> []
          then logf Warning ''errors encountered force-removing unit %q: %v''
                 [V (S unitId), EL opErrs]
          else return ());
         return (TraceN err)
       }
   }"

subsection \<open>cleanupUnitsForDyingApplication, cleanupStorageForDyingModel\<close>

definition unitsC :: string where
  "unitsC = ''units''"

definition destroyAliveUnit ::
  "'w collab \<Rightarrow> bool \<Rightarrow> bool \<Rightarrow> string \<Rightarrow> ('w State, error option) state" where
  "destroyAliveUnit C destroyStorage force unitName = do {
     err \<leftarrow> do_exec C (ApplyDestroyUnitOperation unitName destroyStorage force);
     return (TraceN err)
   }"

definition cleanupUnitsForDyingApplication ::
  "'w collab \<Rightarrow> string \<Rightarrow> bsonRaw list \<Rightarrow> ('w State, error option) state" where
  "cleanupUnitsForDyingApplication C applicationname cleanupArgs =
     (case unmarshalDestroyStorageForce cleanupArgs of
        Inl err \<Rightarrow> return (Some err)
      | Inr (destroyStorage, force) \<Rightarrow> do {
          units \<leftarrow> iterate C (AliveUnitsOfApplication applicationname);
          err \<leftarrow> forEach (destroyAliveUnit C destroyStorage force) units;
          closeIter C unitsC err ''reading unit document''
        })"

text \<open>
  \<open>cleanupStorageForDyingModel\<close> starts from \<open>destroyStorage := sb.DestroyStorageInstance\<close>
  and switches to \<open>sb.ReleaseStorageInstance\<close> only when a first argument is present and
  false. \<open>Inr (destroy, force)\<close> is the pair of decisions, \<open>destroy\<close> telling which of
  the two functions \<open>destroyStorage\<close> is.
\<close>

definition unmarshalModelStorageArgs :: "bsonRaw list \<Rightarrow> error + (bool \<times> bool)" where
  "unmarshalModelStorageArgs cleanupArgs =
     (let n = length cleanupArgs in
      if n > 0 then
        if n > 2 then Inl (Errorf ''expected 0-2 arguments, got %d'' [N n])
        else
          (case UnmarshalBool (cleanupArgs ! 0) of
             Inl err \<Rightarrow>
               Inl (Annotate err (''unmarshalling cleanup arg '' @ quoted ''destroyStorage'') [])
           | Inr destroyStorageFlag \<Rightarrow>
               if n \<ge> 2 then
                 (case UnmarshalBool (cleanupArgs ! 1) of
                    Inl err \<Rightarrow>
                      Inl (Annotate err (''unmarshalling cleanup arg '' @ quoted ''force'') [])
                  | Inr force \<Rightarrow> Inr (destroyStorageFlag, force))
               else Inr (destroyStorageFlag, False))
      else Inr (True, False))"

definition destroyModelStorage ::
  "'w collab \<Rightarrow> bool \<Rightarrow> bool \<Rightarrow> string \<Rightarrow> ('w State, error option) state" where
  "destroyModelStorage C destroy force storageTag = do {
     err \<leftarrow> do_exec C (if destroy then DestroyStorageInstance storageTag True force
                         else ReleaseStorageInstance storageTag True force);
     if IsNotFoundN err then return None
     else return (TraceN err)
   }"

definition cleanupStorageForDyingModel ::
  "'w collab \<Rightarrow> bsonRaw list \<Rightarrow> ('w State, error option) state" where
  "cleanupStorageForDyingModel C cleanupArgs = do {
     err \<leftarrow> do_exec C NewStorageBackend;
     if err \<noteq> None then return (TraceN err)
     else
       case unmarshalModelStorageArgs cleanupArgs of
         Inl err \<Rightarrow> return (Some err)
       | Inr (destroy, force) \<Rightarrow> do {
           r \<leftarrow> do_listing C AllStorageInstances;
           case r of
             Inl err \<Rightarrow> return (Some (Trace err))
           | Inr storage \<Rightarrow> forEach (destroyModelStorage C destroy force) storage
         }
   }"

subsection \<open>Storage of a dying machine or unit\<close>

text \<open>
  The idiom
  \<^verbatim>\<open>if err != nil && !errors.IsNotFound(err) { if !force { return errors.Trace(err) }; logger.Warningf(...) }\<close>
  yields \<open>Some (Trace err)\<close> for the return and \<open>None\<close> for carrying on.
  \<open>andThen m k\<close> is a statement \<open>m\<close> that may return from the function, followed by
  the rest \<open>k\<close> of the function.
\<close>

definition IsContainsFilesystemN :: "error option \<Rightarrow> bool" where
  "IsContainsFilesystemN err = (case err of None \<Rightarrow> False | Some e \<Rightarrow> IsContainsFilesystem e)"

definition failing :: "error option \<Rightarrow> bool" where
  "failing err = (err \<noteq> None \<and> \<not> IsNotFoundN err)"

definition tolerate ::
  "bool \<Rightarrow> error option \<Rightarrow> string \<Rightarrow> logArg list \<Rightarrow> ('w State, error option) state" where
  "tolerate force err m as =
     (if failing err then
        (if \<not> force then return (TraceN err)
         else do { logf Warning m as; return None })
      else return None)"

definition andThen ::
  "('s, 'r option) state \<Rightarrow> ('s, 'r option) state \<Rightarrow> ('s, 'r option) state" where
  "andThen m k = do { r \<leftarrow> m; case r of Some v \<Rightarrow> return (Some v) | None \<Rightarrow> k }"

definition destroyHostFilesystem ::
  "'w collab \<Rightarrow> string \<Rightarrow> bool \<Rightarrow> string \<Rightarrow> ('w State, error option) state" where
  "destroyHostFilesystem C hostTag force f = do {
     err \<leftarrow> do_exec C (DestroyFilesystem f);
     tolerate force err ''could not destroy filesystem %v for %v: %v''
       [V (S f), V (S hostTag), E err]
   }"

text \<open>
  The part of the attachment loop guarded by \<open>if !manual\<close>. The first step computes
  \<open>remove\<close>, \<open>volumeTag\<close> (empty for the zero tag) and whether \<open>updateStatus\<close> sets the
  filesystem's status or does nothing.
\<close>

definition removeFilesystemAttachmentNow ::
  "'w collab \<Rightarrow> string \<Rightarrow> bool \<Rightarrow> bool \<Rightarrow> string \<times> string \<Rightarrow> ('w State, error option) state" where
  "removeFilesystemAttachmentNow C hostTag force detachable fsa = do {
     d \<leftarrow>
       (if \<not> detachable then return (Inr (True, [], False))
        else do {
          err \<leftarrow> do_exec C (GetFilesystem (snd fsa));
          if failing err \<and> \<not> force then return (Inl (TraceN err))
          else do {
            (if failing err
             then logf Warning ''could not get filesystem %v for %v: %v''
                    [V (S (snd fsa)), V (S hostTag), E err]
             else return ());
            if err = None then do {
              v \<leftarrow> do_str C (FilesystemVolume (snd fsa));
              case v of
                Inr volumeTag \<Rightarrow> return (Inr (True, volumeTag, True))
              | Inl verr \<Rightarrow> return (Inr (False, [], True))
            }
            else return (Inr (False, [], False))
          }
        });
     case d of
       Inl err \<Rightarrow> return err
     | Inr (remove, volumeTag, setsStatus) \<Rightarrow>
         if \<not> remove then return None
         else
           andThen (do {
             err \<leftarrow> do_exec C (RemoveFilesystemAttachment (fst fsa) (snd fsa));
             tolerate force err ''could not remove attachment for filesystem %v for %v: %v''
               [V (S (snd fsa)), V (S hostTag), E err]
           })
           (andThen
             (if volumeTag \<noteq> [] then do {
                err \<leftarrow> do_exec C (RemoveVolumeAttachmentPlan (fst fsa) volumeTag);
                tolerate force err ''could not remove attachment plan for volume %v for %v: %v''
                  [V (S volumeTag), V (S hostTag), E err]
              }
              else return None)
             (do {
                err \<leftarrow> (if setsStatus then do_exec C (FilesystemSetStatusDetached (snd fsa))
                        else return None);
                tolerate force err
                  ''could not update status while cleaning up storage for dying %v: %v''
                  [V (S hostTag), E err]
              }))
   }"

definition detachFilesystemAttachment ::
  "'w collab \<Rightarrow> string \<Rightarrow> bool \<Rightarrow> bool \<Rightarrow> string \<times> string \<Rightarrow> ('w State, error option) state" where
  "detachFilesystemAttachment C hostTag manual force fsa = do {
     r \<leftarrow> do_test C (IsDetachableFilesystemTag (snd fsa));
     let detachable = valueOr False r;
     andThen
       (tolerate force (errOf r) ''could not determine if filesystem %v for %v is detachable: %v''
          [V (S (snd fsa)), V (S hostTag), E (errOf r)])
       (andThen
          (if detachable then do {
             err \<leftarrow> do_exec C (DetachFilesystem (fst fsa) (snd fsa));
             tolerate force err ''could not detach filesystem %v for %v: %v''
               [V (S (snd fsa)), V (S hostTag), E err]
           }
           else return None)
          (if \<not> manual then removeFilesystemAttachmentNow C hostTag force detachable fsa
           else return None))
   }"

definition removeHostFilesystem ::
  "'w collab \<Rightarrow> string \<Rightarrow> bool \<Rightarrow> string \<Rightarrow> ('w State, error option) state" where
  "removeHostFilesystem C hostTag force f = do {
     err \<leftarrow> do_exec C (RemoveFilesystem f);
     tolerate force err ''could not remove filesystem %v for dying %v: %v''
       [V (S f), V (S hostTag), E err]
   }"

definition detachVolume ::
  "'w collab \<Rightarrow> string \<Rightarrow> bool \<Rightarrow> string \<times> string \<Rightarrow> ('w State, error option) state" where
  "detachVolume C hostTag force va = do {
     err \<leftarrow> do_exec C (DetachVolume (fst va) (snd va));
     if failing err then
       (if IsContainsFilesystemN err then return None
        else if \<not> force then return (TraceN err)
        else do {
          logf Warning ''could not detach volume %v for dying %v: %v''
            [V (S (snd va)), V (S hostTag), E err];
          return None
        })
     else return None
   }"

definition detachVolumeAttachment ::
  "'w collab \<Rightarrow> string \<Rightarrow> bool \<Rightarrow> string \<times> string \<Rightarrow> ('w State, error option) state" where
  "detachVolumeAttachment C hostTag force va = do {
     r \<leftarrow> do_test C (IsDetachableVolumeTag (snd va));
     if failing (errOf r) then
       (if \<not> force then return (TraceN (errOf r))
        else do {
          logf Warning ''could not determine if volume %v for dying %v is detachable: %v''
            [V (S (snd va)), V (S hostTag), E (errOf r)];
          detachVolume C hostTag force va
        })
     else if \<not> valueOr False r then return None
     else detachVolume C hostTag force va
   }"

definition cleanupDyingEntityStorage ::
  "'w collab \<Rightarrow> string \<Rightarrow> bool \<Rightarrow> (string \<times> string) list \<Rightarrow> (string \<times> string) list \<Rightarrow> bool \<Rightarrow>
     ('w State, error option) state" where
  "cleanupDyingEntityStorage C hostTag manual filesystemAttachments volumeAttachments force = do {
     r \<leftarrow> do_listing C (HostFilesystems hostTag);
     (if failing (errOf r) \<and> \<not> force
      then logf Warning ''%v'' [E (AnnotateN (errOf r) ''getting host filesystems'' [])]
      else return ());
     let filesystems = valueOr [] r;
     andThen (forEach (destroyHostFilesystem C hostTag force) filesystems)
       (andThen (forEach (detachFilesystemAttachment C hostTag manual force) filesystemAttachments)
          (andThen
             (if \<not> manual then forEach (removeHostFilesystem C hostTag force) filesystems
              else return None)
             (forEach (detachVolumeAttachment C hostTag force) volumeAttachments)))
   }"

definition cleanupDyingMachineResources ::
  "'w collab \<Rightarrow> Machine \<Rightarrow> bool \<Rightarrow> ('w State, error option) state" where
  "cleanupDyingMachineResources C m force = do {
     err \<leftarrow> do_exec C NewStorageBackend;
     if err \<noteq> None then return (TraceN err)
     else do {
       fr \<leftarrow> do_attachments C (MachineFilesystemAttachments (Id m));
       let ferr = AnnotateN (errOf fr) ''getting machine filesystem attachments'' [];
       if ferr \<noteq> None \<and> \<not> force then return ferr
       else do {
         (if ferr \<noteq> None then logf Warning ''%v'' [E ferr] else return ());
         vr \<leftarrow> do_attachments C (MachineVolumeAttachments (Id m));
         let verr = AnnotateN (errOf vr) ''getting machine volume attachments'' [];
         if verr \<noteq> None \<and> \<not> force then return verr
         else do {
           (if verr \<noteq> None then logf Warning ''%v'' [E verr] else return ());
           mr \<leftarrow> do_test C (IsManual (Id m));
           if errOf mr \<noteq> None \<and> \<not> force then return (TraceN (errOf mr))
           else do {
             (if errOf mr \<noteq> None
              then logf Warning ''could not determine if machine %v is manual: %v''
                     [V (S (Id m)), E (errOf mr)]
              else return ());
             cleanupDyingEntityStorage C (Id m) (valueOr False mr)
               (valueOr [] fr) (valueOr [] vr) force
           }
         }
       }
     }
   }"

subsection \<open>cleanupDyingMachine\<close>

definition unmarshalForce :: "bsonRaw list \<Rightarrow> error + bool" where
  "unmarshalForce cleanupArgs =
     (let n = length cleanupArgs in
      if n = 0 then Inr False
      else if n = 1 then
        (case UnmarshalBool (cleanupArgs ! 0) of
           Inl err \<Rightarrow> Inl (Annotate err (''unmarshalling cleanup arg '' @ quoted ''force'') [])
         | Inr force \<Rightarrow> Inr force)
      else Inl (Errorf ''expected 0-1 arguments, got %d'' [N n]))"

definition cleanupDyingMachine ::
  "'w collab \<Rightarrow> string \<Rightarrow> bsonRaw list \<Rightarrow> ('w State, error option) state" where
  "cleanupDyingMachine C machineId cleanupArgs =
     (case unmarshalForce cleanupArgs of
        Inl err \<Rightarrow> return (Some err)
      | Inr force \<Rightarrow> do {
          m \<leftarrow> stMachine C machineId;
          case m of
            Inl err \<Rightarrow> if IsNotFound err then return None else return (Some err)
          | Inr machine \<Rightarrow> cleanupDyingMachineResources C machine force
        })"

subsection \<open>obliterateUnit\<close>

text \<open>
  \<open>obliterateUnit\<close> calls itself on the subordinates of the unit and
  \<open>cleanupForceDestroyedMachine\<close> calls itself on the containers of the machine. How deep
  that goes is up to the documents in the store, so both take fuel: a call at nesting depth
  beyond the fuel ends with \<open>OutOfFuel\<close>. The result of \<open>obliterateUnit\<close> is the pair
  \<open>(opErrs, err)\<close>.
\<close>

definition errList :: "error option \<Rightarrow> error list" where
  "errList err = (case err of None \<Rightarrow> [] | Some e \<Rightarrow> [e])"

fun obliterateUnit ::
  "nat \<Rightarrow> 'w collab \<Rightarrow> string \<Rightarrow> bool \<Rightarrow>
     ('w State, abort + (error list \<times> error option)) state" where
  "obliterateUnit 0 C unitName force = return (Inl OutOfFuel)"
| "obliterateUnit (Suc fuel) C unitName force = do {
     u \<leftarrow> stUnit C unitName;
     case u of
       Inl err \<Rightarrow>
         if IsNotFound err then return (Inr ([], None)) else return (Inr ([], Some err))
     | Inr unit \<Rightarrow> do {
         (errs, err) \<leftarrow> do_multi C (UnitDestroyWithForce (Name unit) force);
         let opErrs = errs;
         if err \<noteq> None \<and> \<not> force
         then return (Inr (opErrs, AnnotateN err ''cannot destroy unit %q'' [S unitName]))
         else do {
           let opErrs = opErrs @ errList err;
           r \<leftarrow> unitRefresh C unit;
           if IsNotFoundN (errOf r) then return (Inr (opErrs, None))
           else if errOf r \<noteq> None \<and> \<not> force then return (Inr (opErrs, errOf r))
           else do {
             let opErrs = opErrs @ errList (errOf r);
             let unit = valueOr unit r;
             err \<leftarrow> cleanupUnitStorageAttachments C (Name unit) True force;
             let err = AnnotateN err ''cannot destroy storage for unit %q'' [S unitName];
             if err \<noteq> None \<and> \<not> force then return (Inr (opErrs, err))
             else do {
               let opErrs = opErrs @ errList err;
               r \<leftarrow> foldEach (\<lambda>subName opErrs. do {
                      r \<leftarrow> obliterateUnit fuel C subName force;
                      case r of
                        Inl a \<Rightarrow> return (Inl (Inl a))
                      | Inr (errs, err) \<Rightarrow>
                          let opErrs = opErrs @ errs in
                          if err \<noteq> None \<and> \<not> force then return (Inl (Inr (opErrs, err)))
                          else return (Inr (opErrs @ errList err))
                    }) (Subordinates unit) opErrs;
               case r of
                 Inl v \<Rightarrow> return v
               | Inr opErrs \<Rightarrow> do {
                   err \<leftarrow> do_exec C (UnitEnsureDead (Name unit));
                   if err \<noteq> None \<and> \<not> force then return (Inr (opErrs, err))
                   else do {
                     let opErrs = opErrs @ errList err;
                     (errs, err) \<leftarrow> do_multi C (UnitRemoveWithForce (Name unit) force);
                     return (Inr (opErrs @ errs, err))
                   }
                 }
             }
           }
         }
       }
   }"

subsection \<open>cleanupForceDestroyedMachine, cleanupContainers\<close>

definition cleanupUpgradeSeriesLock :: "'w collab \<Rightarrow> Machine \<Rightarrow> ('w State, error option) state" where
  "cleanupUpgradeSeriesLock C machine = do {
     logf Info ''removing any upgrade series locks for machine, %s'' [V (S (Id machine))];
     err \<leftarrow> do_exec C (RemoveUpgradeSeriesLock (Id machine));
     if IsNotFoundN err then return None
     else return err
   }"

text \<open>The body of the loop over the principals of the machine.\<close>

definition obliteratePrincipal ::
  "nat \<Rightarrow> 'w collab \<Rightarrow> string \<Rightarrow> ('w State, (abort + error option) option) state" where
  "obliteratePrincipal fuel C unitName = do {
     r \<leftarrow> obliterateUnit fuel C unitName True;
     case r of
       Inl a \<Rightarrow> return (Some (Inl a))
     | Inr (opErrs, err) \<Rightarrow> do {
         (if opErrs \<noteq> []
          then logf Warning ''while obliterating unit %v: %v'' [V (S unitName), EL opErrs]
          else return ());
         if err \<noteq> None then return (Some (Inr (TraceN err)))
         else return None
       }
   }"

text \<open>
  Revoking the vote: \<open>st.db().Run(hasVoteTxn)\<close> builds, on its first attempt, the single
  update of the machine document and runs it as a transaction.
\<close>

definition removeVote :: "'w collab \<Rightarrow> Machine \<Rightarrow> ('w State, error option) state" where
  "removeVote C machine =
     runTransaction C [UpdateOp machinesCName (Id machine) ''$set hasvote false'']"

text \<open>What \<open>cleanupForceDestroyedMachine\<close> does once containers and units are gone.\<close>

definition finishForceDestroyedMachine ::
  "'w collab \<Rightarrow> Machine \<Rightarrow> ('w State, error option) state" where
  "finishForceDestroyedMachine C machine = do {
     err \<leftarrow> cleanupDyingMachineResources C machine True;
     if err \<noteq> None then return (TraceN err)
     else do {
       err \<leftarrow>
         (if IsManager machine then do {
            err \<leftarrow> (if HasVote machine then removeVote C machine else return None);
            if err \<noteq> None then return (TraceN err)
            else do {
              err \<leftarrow> do_exec C (RemoveControllerMachine (Id machine));
              return (TraceN err)
            }
          }
          else return None);
       if err \<noteq> None then return err
       else do {
         r \<leftarrow> machineRefresh C machine;
         if IsNotFoundN (errOf r) then return None
         else if errOf r \<noteq> None then return (TraceN (errOf r))
         else do {
           let machine = valueOr machine r;
           err \<leftarrow> do_exec C (MachineEnsureDead (Id machine));
           if err \<noteq> None then return (TraceN err)
           else do {
             p \<leftarrow> do_listing C (RemovePortsOps (Id machine));
             let removePortsOps = map OpaqueOp (valueOr [] p);
             if removePortsOps = [] \<or> errOf p \<noteq> None then return (TraceN (errOf p))
             else do {
               err \<leftarrow> runTransaction C removePortsOps;
               return (TraceN err)
             }
           }
         }
       }
     }
   }"

fun cleanupForceDestroyedMachine ::
      "nat \<Rightarrow> 'w collab \<Rightarrow> string \<Rightarrow> ('w State, abort + error option) state"
  and cleanupContainers ::
      "nat \<Rightarrow> 'w collab \<Rightarrow> Machine \<Rightarrow> ('w State, abort + error option) state" where
  "cleanupForceDestroyedMachine 0 C machineId = return (Inl OutOfFuel)"
| "cleanupForceDestroyedMachine (Suc fuel) C machineId = do {
     m \<leftarrow> stMachine C machineId;
     case m of
       Inl err \<Rightarrow>
         if IsNotFound err then return (Inr None) else return (Inr (Some (Trace err)))
     | Inr machine \<Rightarrow> do {
         err \<leftarrow> cleanupUpgradeSeriesLock C machine;
         if err \<noteq> None then return (Inr (TraceN err))
         else do {
           r \<leftarrow> cleanupContainers fuel C machine;
           case r of
             Inl a \<Rightarrow> return (Inl a)
           | Inr (Some err) \<Rightarrow> return (Inr (Some (Trace err)))
           | Inr None \<Rightarrow> do {
               r \<leftarrow> forEach (obliteratePrincipal (Suc fuel) C) (Principals machine);
               case r of
                 Some v \<Rightarrow> return v
               | None \<Rightarrow> do {
                   err \<leftarrow> finishForceDestroyedMachine C machine;
                   return (Inr err)
                 }
             }
         }
       }
   }"
| "cleanupContainers fuel C machine = do {
     r \<leftarrow> do_listing C (Containers (Id machine));
     if IsNotFoundN (errOf r) then return (Inr None)
     else if errOf r \<noteq> None then return (Inr (errOf r))
     else do {
       r \<leftarrow> forEach (\<lambda>containerId. do {
              r \<leftarrow> cleanupForceDestroyedMachine fuel C containerId;
              case r of
                Inl a \<Rightarrow> return (Some (Inl a))
              | Inr (Some err) \<Rightarrow> return (Some (Inr (Some err)))
              | Inr None \<Rightarrow> do {
                  c \<leftarrow> stMachine C containerId;
                  case c of
                    Inl err \<Rightarrow>
                      if IsNotFound err then return (Some (Inr None))
                      else return (Some (Inr (Some err)))
                  | Inr container \<Rightarrow> do {
                      err \<leftarrow> do_exec C (MachineRemove (Id container));
                      if err \<noteq> None then return (Some (Inr err))
                      else return None
                    }
                }
            }) (valueOr [] r);
       case r of
         Some v \<Rightarrow> return v
       | None \<Rightarrow> return (Inr None)
     }
   }"

subsection \<open>Cleanup\<close>

text \<open>
  The query of \<open>Cleanup\<close>:
  \<^verbatim>\<open>{"$or": [{"when": {"$lte": now}}, {"when": {"$exists": false}}]}\<close>.
\<close>

definition due :: "time \<Rightarrow> cleanupDoc \<Rightarrow> bool" where
  "due now doc = (case When doc of None \<Rightarrow> True | Some t \<Rightarrow> t \<le> now)"

definition lift :: "('s, error option) state \<Rightarrow> ('s, abort + error option) state" where
  "lift m = do { err \<leftarrow> m; return (Inr err) }"

text \<open>The \<open>switch doc.Kind\<close>, each case with the arguments the code passes.\<close>

definition dispatch :: "nat \<Rightarrow> 'w collab \<Rightarrow> cleanupDoc \<Rightarrow> ('w State, abort + error option) state" where
  "dispatch fuel C doc =
     (let k = Kind doc; args = Args doc in
      if k = cleanupRelationSettingsK then lift (do_otherHandler C k (Prefix doc) [])
      else if k = cleanupCharmK then lift (do_otherHandler C k (Prefix doc) [])
      else if k = cleanupUnitsForDyingApplicationK
        then lift (cleanupUnitsForDyingApplication C (Prefix doc) args)
      else if k = cleanupDyingUnitK then lift (cleanupDyingUnit C (Prefix doc) args)
      else if k = cleanupForceDestroyedUnitK then cleanupForceDestroyedUnit C (Prefix doc)
      else if k = cleanupForceRemoveUnitK then lift (cleanupForceRemoveUnit C (Prefix doc))
      else if k = cleanupDyingUnitResourcesK then lift (do_otherHandler C k (Prefix doc) args)
      else if k = cleanupRemovedUnitK then lift (do_otherHandler C k (Prefix doc) args)
      else if k = cleanupApplicationsForDyingModelK then lift (do_otherHandler C k [] [])
      else if k = cleanupDyingMachineK then lift (cleanupDyingMachine C (Prefix doc) args)
      else if k = cleanupForceDestroyedMachineK
        then cleanupForceDestroyedMachine fuel C (Prefix doc)
      else if k = cleanupAttachmentsForDyingStorageK
        then lift (do_otherHandler C k (Prefix doc) args)
      else if k = cleanupAttachmentsForDyingVolumeK
        then lift (do_otherHandler C k (Prefix doc) [])
      else if k = cleanupAttachmentsForDyingFilesystemK
        then lift (do_otherHandler C k (Prefix doc) [])
      else if k = cleanupModelsForDyingControllerK then lift (do_otherHandler C k [] args)
      else if k = cleanupMachinesForDyingModelK then lift (do_otherHandler C k [] [])
      else if k = cleanupResourceBlobK then lift (do_otherHandler C k (Prefix doc) [])
      else if k = cleanupStorageForDyingModelK then lift (cleanupStorageForDyingModel C args)
      else return (Inr (Some (Errorf ''unknown cleanup kind %q'' [S k]))))"

text \<open>
  The body of the loop over the due documents: \<open>None\<close> goes on with the next document
  (the \<open>continue\<close> after a failed handler, or the end of the body after the removal),
  \<open>Some r\<close> leaves \<open>Cleanup\<close> with \<open>r\<close>.
\<close>

definition processDoc ::
  "nat \<Rightarrow> 'w collab \<Rightarrow> string \<Rightarrow> cleanupDoc \<Rightarrow> ('w State, (abort + error option) option) state" where
  "processDoc fuel C uuid doc = do {
     logf Debug ''model %v cleanup: %v(%q)''
       [V (S (take 6 uuid)), V (S (Kind doc)), V (S (Prefix doc))];
     State (\<lambda>s. ((), jot (EvDispatch doc) s));
     r \<leftarrow> dispatch fuel C doc;
     case r of
       Inl a \<Rightarrow> return (Some (Inl a))
     | Inr (Some err) \<Rightarrow> do {
         logf Warning ''cleanup failed in model %v for %v(%q): %v''
           [V (S uuid), V (S (Kind doc)), V (S (Prefix doc)), E (Some err)];
         return None
       }
     | Inr None \<Rightarrow> do {
         err \<leftarrow> runTransaction C [RemoveOp cleanupsCName (DocID doc)];
         if err \<noteq> None
         then return (Some (Inr (AnnotateN err ''cannot remove empty cleanup document'' [])))
         else return None
       }
   }"

text \<open>
  \<open>modelUUID[:6]\<close> panics on a model UUID shorter than six characters. The deferred
  \<open>closeIter\<close> runs however the loop ends.
\<close>

definition Cleanup :: "nat \<Rightarrow> 'w collab \<Rightarrow> ('w State, abort + error option) state" where
  "Cleanup fuel C = do {
     s \<leftarrow> State_Monad.get;
     if length (modelUUID s) < 6 then return (Inl SliceBounds)
     else do {
       now \<leftarrow> clockNow C;
       r \<leftarrow> forEach (processDoc fuel C (modelUUID s)) (filter (due now) (cleanupsC s));
       case r of
         Some (Inl a) \<Rightarrow> do {
           closeIter C cleanupsCName None ''reading cleanup document'';
           return (Inl a)
         }
       | Some (Inr err) \<Rightarrow> do {
           err \<leftarrow> closeIter C cleanupsCName err ''reading cleanup document'';
           return (Inr err)
         }
       | None \<Rightarrow> do {
           err \<leftarrow> closeIter C cleanupsCName None ''reading cleanup document'';
           return (Inr err)
         }
     }
   }"

section \<open>Reading the journal\<close>

text \<open>
  The events a run appended to the journal, and what the journal says about the cleanups
  collection: the collection changes only when a transaction commits, so replaying the
  committed transactions of a run over the collection it started from gives the collection
  it ends with.
\<close>

definition since :: "'w State \<Rightarrow> 'w State \<Rightarrow> event list" where
  "since s s' = drop (length (journal s)) (journal s')"

fun replayEvent :: "cleanupDoc list \<Rightarrow> event \<Rightarrow> cleanupDoc list" where
  "replayEvent docs (EvTxn ops None) = foldl applyOp docs ops"
| "replayEvent docs ev = docs"

definition replay :: "cleanupDoc list \<Rightarrow> event list \<Rightarrow> cleanupDoc list" where
  "replay docs es = foldl replayEvent docs es"

definition evolves :: "(event \<Rightarrow> bool) \<Rightarrow> 'w State \<Rightarrow> 'w State \<Rightarrow> bool" where
  "evolves P s s' \<longleftrightarrow>
     modelUUID s' = modelUUID s \<and>
     (\<exists>es. journal s' = journal s @ es \<and> list_all P es \<and>
           cleanupsC s' = replay (cleanupsC s) es)"

definition keeps :: "(event \<Rightarrow> bool) \<Rightarrow> ('w State, 'a) state \<Rightarrow> bool" where
  "keeps P m \<longleftrightarrow> (\<forall>s. evolves P s (snd (run_state m s)))"

definition isTxn :: "event \<Rightarrow> bool" where
  "isTxn ev = (case ev of EvTxn ops r \<Rightarrow> True | _ \<Rightarrow> False)"

definition dispatched :: "event list \<Rightarrow> cleanupDoc list" where
  "dispatched es = concat (map (\<lambda>ev. case ev of EvDispatch d \<Rightarrow> [d] | _ \<Rightarrow> []) es)"

text \<open>The cleanup documents an operation removes.\<close>

definition removedIds :: "txnOp \<Rightarrow> string list" where
  "removedIds op = (case op of RemoveOp c i \<Rightarrow> (if c = cleanupsCName then [i] else []) | _ \<Rightarrow> [])"

text \<open>
  What a handler may do: it is never handed a document by itself, and its transactions
  remove no cleanup document.
\<close>

definition handlerEvent :: "event \<Rightarrow> bool" where
  "handlerEvent ev =
     (case ev of
        EvDispatch d \<Rightarrow> False
      | EvTxn ops r \<Rightarrow> concat (map removedIds ops) = []
      | _ \<Rightarrow> True)"

text \<open>What a pass over the documents \<open>ids\<close> may do: remove those documents only.\<close>

definition passEvent :: "string set \<Rightarrow> event \<Rightarrow> bool" where
  "passEvent ids ev =
     (case ev of
        EvTxn ops r \<Rightarrow> set (concat (map removedIds ops)) \<subseteq> ids
      | _ \<Rightarrow> True)"

text \<open>The state in which \<open>processDoc\<close> runs the handler, and the handler's run there.\<close>

definition handlerRun ::
  "nat \<Rightarrow> 'w collab \<Rightarrow> string \<Rightarrow> cleanupDoc \<Rightarrow> 'w State \<Rightarrow> (abort + error option) \<times> 'w State" where
  "handlerRun fuel C uuid doc s =
     run_state (dispatch fuel C doc)
       (jot (EvDispatch doc)
          (jot (EvLog Debug ''model %v cleanup: %v(%q)''
                  [V (S (take 6 uuid)), V (S (Kind doc)), V (S (Prefix doc))]) s))"

section \<open>An in-memory store\<close>

text \<open>
  A small collaborator to run the engine on: tables of units (with their subordinates),
  machines (with their principals), containers and storage attachments; calls that are
  set to fail; a switch that makes every transaction fail; and a list of machines that are
  taken out of the store the moment they are dead, as a provisioner working alongside does.
\<close>

record memStore =
  unitsW :: "(string \<times> string list) list"
  machinesW :: "(string \<times> string list) list"
  containersW :: "(string \<times> string list) list"
  storageW :: "(string \<times> string list) list"
  reapW :: "string list"
  failuresW :: "(errcall \<times> error) list"
  txnErrW :: "error option"
  clockW :: int
  oidW :: nat

definition entries :: "(string \<times> string list) list \<Rightarrow> string \<Rightarrow> string list" where
  "entries tab k = (case map_of tab k of None \<Rightarrow> [] | Some xs \<Rightarrow> xs)"

definition memUnit :: "string \<Rightarrow> memStore \<Rightarrow> (error + Unit) \<times> memStore" where
  "memUnit name w =
     (case map_of (unitsW w) name of
        None \<Rightarrow> (Inl (NotFound name), w)
      | Some subs \<Rightarrow> (Inr \<lparr>Name = name, Subordinates = subs\<rparr>, w))"

definition memMachine :: "string \<Rightarrow> memStore \<Rightarrow> (error + Machine) \<times> memStore" where
  "memMachine mid w =
     (case map_of (machinesW w) mid of
        None \<Rightarrow> (Inl (NotFound mid), w)
      | Some ps \<Rightarrow> (Inr \<lparr>Id = mid, Principals = ps, IsManager = False, HasVote = False\<rparr>, w))"

definition memExec :: "errcall \<Rightarrow> memStore \<Rightarrow> error option \<times> memStore" where
  "memExec c w =
     (case map_of (failuresW w) c of
        Some e \<Rightarrow> (Some e, w)
      | None \<Rightarrow>
          (case c of
             MachineRemove mid \<Rightarrow>
               (None, w\<lparr>machinesW := filter (\<lambda>p. fst p \<noteq> mid) (machinesW w)\<rparr>)
           | MachineEnsureDead mid \<Rightarrow>
               (None, if mid \<in> set (reapW w)
                      then w\<lparr>machinesW := filter (\<lambda>p. fst p \<noteq> mid) (machinesW w)\<rparr>
                      else w)
           | _ \<Rightarrow> (None, w)))"

definition memListing :: "listcall \<Rightarrow> memStore \<Rightarrow> (error + string list) \<times> memStore" where
  "memListing c w =
     (case c of
        Containers mid \<Rightarrow>
          (Inr (filter (\<lambda>c. length mid < length c) (entries (containersW w) mid)), w)
      | UnitStorageAttachments u \<Rightarrow> (Inr (entries (storageW w) u), w)
      | AllStorageInstances \<Rightarrow> (Inr (concat (map snd (storageW w))), w)
      | _ \<Rightarrow> (Inr [], w))"

definition memObjectId :: "memStore \<Rightarrow> string \<times> memStore" where
  "memObjectId w = (''oid-'' @ replicate (oidW w) (CHR ''i''), w\<lparr>oidW := Suc (oidW w)\<rparr>)"

definition mem :: "memStore collab" where
  "mem = \<lparr>unitDoc = memUnit, unitDocRefresh = memUnit,
          machineDoc = memMachine, machineDocRefresh = memMachine,
          exec = memExec,
          multi = (\<lambda>c w. (([], None), w)),
          listing = memListing,
          attachments = (\<lambda>c w. (Inr [], w)),
          test = (\<lambda>c w. (Inr False, w)),
          str = (\<lambda>c w. (Inl (NotFound ''volume''), w)),
          Now = clockW,
          NewObjectId = memObjectId,
          RunTransaction = (\<lambda>ops w. (txnErrW w, w)),
          otherHandler = (\<lambda>k p a w. (None, w))\<rparr>"

definition emptyStore :: memStore where
  "emptyStore = \<lparr>unitsW = [], machinesW = [], containersW = [], storageW = [], reapW = [],
                 failuresW = [], txnErrW = None, clockW = 1000, oidW = 0\<rparr>"

definition initial :: "cleanupDoc list \<Rightarrow> memStore \<Rightarrow> memStore State" where
  "initial docs w = \<lparr>modelUUID = ''deadbeef-0000'', cleanupsC = docs, world = w, journal = []\<rparr>"

text \<open>Fixtures: a store with one storage instance, a document of a kind nobody handles.\<close>

definition oneVolume :: memStore where
  "oneVolume = emptyStore\<lparr>storageW := [(''app/0'', [''data/0''])]\<rparr>"

definition bogusDoc :: cleanupDoc where
  "bogusDoc = \<lparr>DocID = ''c'', Kind = ''bogus'', When = Some 0, Prefix = ''x'', Args = []\<rparr>"

text \<open>What \<open>processDoc\<close> writes to the journal for a document of unknown kind.\<close>

definition unknownKindWarning :: "string \<Rightarrow> cleanupDoc \<Rightarrow> event list" where
  "unknownKindWarning uuid doc =
     [EvLog Debug ''model %v cleanup: %v(%q)''
        [V (S (take 6 uuid)), V (S (Kind doc)), V (S (Prefix doc))],
      EvDispatch doc,
      EvLog Warning ''cleanup failed in model %v for %v(%q): %v''
        [V (S uuid), V (S (Kind doc)), V (S (Prefix doc)),
         E (Some (Errorf ''unknown cleanup kind %q'' [S (Kind doc)]))]]"

text \<open>
  Fixture: a machine hosting two containers and one unit, where the first container is
  taken out of the store as soon as it is dead.
\<close>

definition hostWithContainers :: memStore where
  "hostWithContainers =
     emptyStore\<lparr>unitsW := [(''app/0'', [])],
                machinesW := [(''0'', [''app/0'']), (''0/lxd/0'', []), (''0/lxd/1'', [])],
                containersW := [(''0'', [''0/lxd/0'', ''0/lxd/1''])],
                reapW := [''0/lxd/0'']\<rparr>"

text \<open>The lookups, deaths and removals of machines and the calls on units, in a journal.\<close>

definition machineEvents :: "event list \<Rightarrow> event list" where
  "machineEvents es =
     filter (\<lambda>ev. case ev of
                EvMachine x r \<Rightarrow> True
              | EvExec c r \<Rightarrow>
                  (case c of MachineRemove x \<Rightarrow> True | MachineEnsureDead x \<Rightarrow> True | _ \<Rightarrow> False)
              | EvMulti c r \<Rightarrow> True
              | _ \<Rightarrow> False) es"

text \<open>The warning for a failed handler, the removal of a document, the error for a failed removal.\<close>

definition cleanupFailed :: "string \<Rightarrow> cleanupDoc \<Rightarrow> error \<Rightarrow> event" where
  "cleanupFailed uuid doc err =
     EvLog Warning ''cleanup failed in model %v for %v(%q): %v''
       [V (S uuid), V (S (Kind doc)), V (S (Prefix doc)), E (Some err)]"

definition removal :: "cleanupDoc \<Rightarrow> txnOp list" where
  "removal doc = [RemoveOp cleanupsCName (DocID doc)]"

definition cannotRemove :: "error \<Rightarrow> error" where
  "cannotRemove terr = Annotate terr ''cannot remove empty cleanup document'' []"

definition readingFailed :: "error \<Rightarrow> error" where
  "readingFailed cerr = Annotate cerr ''reading cleanup document'' []"

text \<open>Fixtures for the run loop, and the state in which the handler of a document starts.\<close>

definition badArgsDoc :: cleanupDoc where
  "badArgsDoc = \<lparr>DocID = ''a'', Kind = ''dyingUnit'', When = Some 0, Prefix = ''app/0'',
                  Args = [RawBool True, RawBool True, RawBool True]\<rparr>"

definition goneUnitDoc :: cleanupDoc where
  "goneUnitDoc = \<lparr>DocID = ''b'', Kind = ''forceRemoveUnit'', When = None, Prefix = ''app/1'',
                   Args = []\<rparr>"

definition laterDoc :: cleanupDoc where
  "laterDoc = \<lparr>DocID = ''l'', Kind = ''forceRemoveUnit'', When = Some 2000, Prefix = ''app/2'',
                Args = []\<rparr>"

definition brokenTxns :: memStore where
  "brokenTxns = emptyStore\<lparr>txnErrW := Some (Failure ''txn'')\<rparr>"

definition entered :: "string \<Rightarrow> cleanupDoc \<Rightarrow> 'w State \<Rightarrow> 'w State" where
  "entered uuid doc s =
     jot (EvDispatch doc)
       (jot (EvLog Debug ''model %v cleanup: %v(%q)''
               [V (S (take 6 uuid)), V (S (Kind doc)), V (S (Prefix doc))]) s)"

section \<open>Facts about the primitive actions and the journal\<close>

lemma run_call [simp]:
  "run_state (call f ev) s = (case f (world s) of (r, w') \<Rightarrow> (r, jot (ev r) (s\<lparr>world := w'\<rparr>)))"
  by (simp add: call_def)

lemma run_logf [simp]: "run_state (logf l m as) s = ((), jot (EvLog l m as) s)"
  by (simp add: logf_def)

lemma run_runTransaction [simp]:
  "run_state (runTransaction C ops) s =
     (case RunTransaction C ops (world s) of
       (r, w') \<Rightarrow>
         (r, jot (EvTxn ops r)
               (s\<lparr>world := w',
                  cleanupsC := (if r = None then foldl applyOp (cleanupsC s) ops
                                else cleanupsC s)\<rparr>)))"
  by (simp add: runTransaction_def)

lemmas prim_defs =
  stUnit_def unitRefresh_def stMachine_def machineRefresh_def do_exec_def do_multi_def
  do_listing_def do_attachments_def do_test_def do_str_def clockNow_def newObjectId_def
  do_otherHandler_def

lemma replay_Nil [simp]: "replay docs [] = docs"
  by (simp add: replay_def)

lemma replay_append [simp]: "replay docs (es @ fs) = replay (replay docs es) fs"
  by (simp add: replay_def)

lemma replay_Cons [simp]: "replay docs (ev # es) = replay (replayEvent docs ev) es"
  by (simp add: replay_def)

lemma evolves_refl [simp]: "evolves P s s"
  by (simp add: evolves_def)

lemma evolves_trans: "evolves P s t \<Longrightarrow> evolves P t u \<Longrightarrow> evolves P s u"
  by (auto simp: evolves_def)

lemma evolves_mono: "evolves P s t \<Longrightarrow> (\<And>ev. P ev \<Longrightarrow> Q ev) \<Longrightarrow> evolves Q s t"
  by (auto simp: evolves_def list_all_iff)

lemma evolves_since:
  "evolves P s s' \<Longrightarrow>
     journal s' = journal s @ since s s' \<and> list_all P (since s s') \<and>
     cleanupsC s' = replay (cleanupsC s) (since s s') \<and> modelUUID s' = modelUUID s"
  by (auto simp: evolves_def since_def)

lemma since_trans:
  "evolves P s t \<Longrightarrow> evolves Q t u \<Longrightarrow> since s u = since s t @ since t u"
  by (auto simp: evolves_def since_def)

lemma since_self [simp]: "since s s = []"
  by (simp add: since_def)

lemma since_jot [simp]: "since s (jot ev s') = since s s' @ [ev]" if "length (journal s) \<le> length (journal s')"
  using that by (simp add: since_def jot_def)

lemma evolves_jot_world:
  "P ev \<Longrightarrow> \<not> isTxn ev \<Longrightarrow> evolves P s (jot ev (s\<lparr>world := w\<rparr>))"
  by (cases ev) (auto simp: evolves_def jot_def isTxn_def)

lemma evolves_jot:
  "P ev \<Longrightarrow> \<not> isTxn ev \<Longrightarrow> evolves P s (jot ev s)"
  by (cases ev) (auto simp: evolves_def jot_def isTxn_def)

lemma keepsD: "keeps P m \<Longrightarrow> run_state m s = (r, s') \<Longrightarrow> evolves P s s'"
  by (auto simp: keeps_def dest: spec[of _ s])

lemma keeps_mono: "keeps P m \<Longrightarrow> (\<And>ev. P ev \<Longrightarrow> Q ev) \<Longrightarrow> keeps Q m"
  unfolding keeps_def by (blast intro: evolves_mono)

lemma keeps_return [simp, intro!]: "keeps P (return x)"
  by (simp add: keeps_def)

lemma keeps_bind [intro!]:
  "keeps P m \<Longrightarrow> (\<And>x. keeps P (f x)) \<Longrightarrow> keeps P (State_Monad.bind m f)"
  by (auto simp: keeps_def split: prod.splits intro: evolves_trans dest: spec)

lemma keeps_if [intro!]: "keeps P m \<Longrightarrow> keeps P n \<Longrightarrow> keeps P (if b then m else n)"
  by simp

lemma keeps_case_sum [intro!]:
  "(\<And>a. keeps P (f a)) \<Longrightarrow> (\<And>b. keeps P (g b)) \<Longrightarrow>
     keeps P (case x of Inl a \<Rightarrow> f a | Inr b \<Rightarrow> g b)"
  by (cases x) auto

lemma keeps_case_option [intro!]:
  "keeps P m \<Longrightarrow> (\<And>a. keeps P (f a)) \<Longrightarrow> keeps P (case x of None \<Rightarrow> m | Some a \<Rightarrow> f a)"
  by (cases x) auto

lemma keeps_case_prod [intro!]:
  "(\<And>a b. keeps P (f a b)) \<Longrightarrow> keeps P (case x of (a, b) \<Rightarrow> f a b)"
  by (cases x) auto

lemma keeps_call:
  "(\<And>r. P (ev r)) \<Longrightarrow> (\<And>r. \<not> isTxn (ev r)) \<Longrightarrow> keeps P (call f ev)"
  by (auto simp: keeps_def split: prod.splits intro: evolves_jot_world)

lemma keeps_logf [intro!]: "P (EvLog l m as) \<Longrightarrow> keeps P (logf l m as)"
  by (auto simp: keeps_def isTxn_def intro: evolves_jot)

lemma keeps_do_exec [intro!]: "(\<And>r. P (EvExec c r)) \<Longrightarrow> keeps P (do_exec C c)"
  unfolding do_exec_def by (rule keeps_call) (auto simp: isTxn_def)

lemma keeps_do_multi [intro!]: "(\<And>r. P (EvMulti c r)) \<Longrightarrow> keeps P (do_multi C c)"
  unfolding do_multi_def by (rule keeps_call) (auto simp: isTxn_def)

lemma keeps_do_listing [intro!]: "(\<And>r. P (EvListing c r)) \<Longrightarrow> keeps P (do_listing C c)"
  unfolding do_listing_def by (rule keeps_call) (auto simp: isTxn_def)

lemma keeps_do_attachments [intro!]:
  "(\<And>r. P (EvAttachments c r)) \<Longrightarrow> keeps P (do_attachments C c)"
  unfolding do_attachments_def by (rule keeps_call) (auto simp: isTxn_def)

lemma keeps_do_test [intro!]: "(\<And>r. P (EvTest c r)) \<Longrightarrow> keeps P (do_test C c)"
  unfolding do_test_def by (rule keeps_call) (auto simp: isTxn_def)

lemma keeps_do_str [intro!]: "(\<And>r. P (EvStr c r)) \<Longrightarrow> keeps P (do_str C c)"
  unfolding do_str_def by (rule keeps_call) (auto simp: isTxn_def)

lemma keeps_clockNow [intro!]: "(\<And>r. P (EvNow r)) \<Longrightarrow> keeps P (clockNow C)"
  unfolding clockNow_def by (rule keeps_call) (auto simp: isTxn_def)

lemma keeps_newObjectId [intro!]: "(\<And>r. P (EvNewObjectId r)) \<Longrightarrow> keeps P (newObjectId C)"
  unfolding newObjectId_def by (rule keeps_call) (auto simp: isTxn_def)

lemma keeps_do_otherHandler [intro!]:
  "(\<And>r. P (EvHandler k p a r)) \<Longrightarrow> keeps P (do_otherHandler C k p a)"
  unfolding do_otherHandler_def by (rule keeps_call) (auto simp: isTxn_def)

lemma keeps_stUnit [intro!]: "(\<And>r. P (EvUnit n r)) \<Longrightarrow> keeps P (stUnit C n)"
  unfolding stUnit_def by (rule keeps_call) (auto simp: isTxn_def)

lemma keeps_unitRefresh [intro!]:
  "(\<And>r. P (EvUnitRefresh (Name u) r)) \<Longrightarrow> keeps P (unitRefresh C u)"
  unfolding unitRefresh_def by (rule keeps_call) (auto simp: isTxn_def)

lemma keeps_stMachine [intro!]: "(\<And>r. P (EvMachine n r)) \<Longrightarrow> keeps P (stMachine C n)"
  unfolding stMachine_def by (rule keeps_call) (auto simp: isTxn_def)

lemma keeps_machineRefresh [intro!]:
  "(\<And>r. P (EvMachineRefresh (Id m) r)) \<Longrightarrow> keeps P (machineRefresh C m)"
  unfolding machineRefresh_def by (rule keeps_call) (auto simp: isTxn_def)

lemma keeps_runTransaction [intro!]:
  "(\<And>r. P (EvTxn ops r)) \<Longrightarrow> keeps P (runTransaction C ops)"
  by (auto simp: keeps_def evolves_def jot_def split: prod.splits)

lemma keeps_forEach [intro!]: "(\<And>x. keeps P (body x)) \<Longrightarrow> keeps P (forEach body xs)"
  by (induction xs) auto

lemma keeps_foldEach [intro!]:
  "(\<And>x a. keeps P (body x a)) \<Longrightarrow> keeps P (foldEach body xs acc)"
  by (induction xs arbitrary: acc) auto

lemma keeps_andThen [intro!]: "keeps P m \<Longrightarrow> keeps P k \<Longrightarrow> keeps P (andThen m k)"
  by (auto simp: andThen_def)

lemma keeps_tolerate [intro!]:
  "P (EvLog Warning m as) \<Longrightarrow> keeps P (tolerate force err m as)"
  by (auto simp: tolerate_def)

lemma keeps_closeIter [intro!]:
  "(\<And>r. P (EvExec (IterClose i) r)) \<Longrightarrow> (\<And>e. P (EvLog Error ''%v'' [E e])) \<Longrightarrow>
     keeps P (closeIter C i e m)"
  by (auto simp: closeIter_def Let_def)

lemma keeps_lift [intro!]: "keeps P m \<Longrightarrow> keeps P (lift m)"
  by (auto simp: lift_def)

section \<open>Handlers on entities that are gone\<close>

text \<open>
  Claim C2. When the lookup of the target entity reports not-found, each of
  \<open>cleanupDyingUnit\<close>, \<open>cleanupForceDestroyedUnit\<close>, \<open>cleanupForceRemoveUnit\<close>,
  \<open>cleanupDyingMachine\<close> and \<open>cleanupForceDestroyedMachine\<close> returns nil, and the state
  it leaves is the state the lookup left: the journal holds the lookup (and, for the two
  force handlers of units, the debug line), nothing else was called, no transaction was run.
  The two handlers that take arguments decode them before the lookup; with malformed
  arguments they return the decoding error and do not get to the lookup at all.
\<close>

theorem lookup_not_found_is_noop:
  "(unitDoc C name (world s) = (Inl err, w') \<and> IsNotFound err \<longrightarrow>
      run_state (cleanupDyingUnit C name args) s =
        (case unmarshalDestroyStorageForce args of
           Inl e \<Rightarrow> (Some e, s)
         | Inr flags \<Rightarrow> (None, jot (EvUnit name (Inl err)) (s\<lparr>world := w'\<rparr>))) \<and>
      run_state (cleanupForceDestroyedUnit C name) s =
        (Inr None, jot (EvLog Debug ''no need to force unit to dead %q'' [V (S name)])
                     (jot (EvUnit name (Inl err)) (s\<lparr>world := w'\<rparr>))) \<and>
      run_state (cleanupForceRemoveUnit C name) s =
        (None, jot (EvLog Debug ''no need to force remove unit %q'' [V (S name)])
                 (jot (EvUnit name (Inl err)) (s\<lparr>world := w'\<rparr>)))) \<and>
   (machineDoc C name (world s) = (Inl err, w') \<and> IsNotFound err \<longrightarrow>
      run_state (cleanupDyingMachine C name args) s =
        (case unmarshalForce args of
           Inl e \<Rightarrow> (Some e, s)
         | Inr force \<Rightarrow> (None, jot (EvMachine name (Inl err)) (s\<lparr>world := w'\<rparr>))) \<and>
      run_state (cleanupForceDestroyedMachine (Suc fuel) C name) s =
        (Inr None, jot (EvMachine name (Inl err)) (s\<lparr>world := w'\<rparr>)))"
  by (auto simp: cleanupDyingUnit_def cleanupForceDestroyedUnit_def cleanupForceRemoveUnit_def
        cleanupDyingMachine_def stUnit_def stMachine_def split: sum.splits)

theorem lookup_not_found_is_noop_witness:
  "run_state (cleanupDyingUnit mem ''app/0'' []) (initial [] emptyStore) =
     (None, jot (EvUnit ''app/0'' (Inl (NotFound ''app/0''))) (initial [] emptyStore)) \<and>
   run_state (cleanupForceDestroyedMachine (Suc 0) mem ''0'') (initial [] emptyStore) =
     (Inr None, jot (EvMachine ''0'' (Inl (NotFound ''0''))) (initial [] emptyStore))"
proof -
  have u: "unitDoc mem ''app/0'' (world (initial [] emptyStore)) =
             (Inl (NotFound ''app/0''), emptyStore) \<and> IsNotFound (NotFound ''app/0'')"
    by (simp add: mem_def memUnit_def initial_def emptyStore_def IsNotFound_def)
  have m: "machineDoc mem ''0'' (world (initial [] emptyStore)) =
             (Inl (NotFound ''0''), emptyStore) \<and> IsNotFound (NotFound ''0'')"
    by (simp add: mem_def memMachine_def initial_def emptyStore_def IsNotFound_def)
  have e: "(initial [] emptyStore)\<lparr>world := emptyStore\<rparr> = initial [] emptyStore"
    by (simp add: initial_def)
  from u lookup_not_found_is_noop
    [of mem "''app/0''" "initial [] emptyStore" "NotFound ''app/0''" emptyStore "[]" 0]
  have 1: "run_state (cleanupDyingUnit mem ''app/0'' []) (initial [] emptyStore) =
     (None, jot (EvUnit ''app/0'' (Inl (NotFound ''app/0''))) (initial [] emptyStore))"
    by (simp add: e unmarshalDestroyStorageForce_def)
  from m lookup_not_found_is_noop
    [of mem "''0''" "initial [] emptyStore" "NotFound ''0''" emptyStore "[]" 0]
  have 2: "run_state (cleanupForceDestroyedMachine (Suc 0) mem ''0'') (initial [] emptyStore) =
     (Inr None, jot (EvMachine ''0'' (Inl (NotFound ''0''))) (initial [] emptyStore))"
    by (simp add: e)
  from 1 2 show ?thesis by simp
qed

section \<open>Documents without arguments\<close>

text \<open>
  Claim C4, as the code has it. With an empty argument list \<open>cleanupDyingUnit\<close> and
  \<open>cleanupUnitsForDyingApplication\<close> are the same computation (same result, same effects)
  as with the two arguments \<open>[false, false]\<close>. \<open>cleanupStorageForDyingModel\<close> is not: its
  legacy default is to destroy storage, so with an empty argument list it is the same
  computation as with \<open>[true, false]\<close>.
\<close>

theorem legacy_args_defaults:
  "cleanupDyingUnit C name [] = cleanupDyingUnit C name [RawBool False, RawBool False] \<and>
   cleanupUnitsForDyingApplication C app [] =
     cleanupUnitsForDyingApplication C app [RawBool False, RawBool False] \<and>
   cleanupStorageForDyingModel C [] = cleanupStorageForDyingModel C [RawBool True, RawBool False]"
proof -
  have a: "unmarshalDestroyStorageForce [RawBool False, RawBool False] =
             unmarshalDestroyStorageForce []"
    by (simp add: unmarshalDestroyStorageForce_def UnmarshalBool_def)
  have b: "unmarshalModelStorageArgs [RawBool True, RawBool False] =
             unmarshalModelStorageArgs []"
    by (simp add: unmarshalModelStorageArgs_def UnmarshalBool_def)
  show ?thesis
    unfolding cleanupDyingUnit_def cleanupUnitsForDyingApplication_def
      cleanupStorageForDyingModel_def a b by simp
qed

text \<open>
  On a store with one storage instance, \<open>cleanupStorageForDyingModel\<close> without arguments
  destroys the instance, and with \<open>[false, false]\<close> releases it.
\<close>

theorem model_storage_legacy_counterexample:
  "run_state (cleanupStorageForDyingModel mem []) (initial [] oneVolume) \<noteq>
   run_state (cleanupStorageForDyingModel mem [RawBool False, RawBool False])
     (initial [] oneVolume)"
  by (simp add: cleanupStorageForDyingModel_def unmarshalModelStorageArgs_def UnmarshalBool_def
        destroyModelStorage_def do_exec_def do_listing_def mem_def memExec_def memListing_def
        initial_def oneVolume_def emptyStore_def jot_def IsNotFoundN_def TraceN_def)

section \<open>Documents of unknown kind\<close>

lemma dispatch_unknown:
  "Kind doc \<notin> set knownKinds \<Longrightarrow>
     dispatch fuel C doc = return (Inr (Some (Errorf ''unknown cleanup kind %q'' [S (Kind doc)])))"
  by (simp add: dispatch_def knownKinds_def Let_def)

text \<open>
  Claim C5. For a document whose kind is none of the enumerated kinds, the loop body of
  \<open>Cleanup\<close> makes the error "unknown cleanup kind", logs it in the warning
  "cleanup failed ...", changes nothing else (the document stays in the collection, no
  transaction is run) and goes on: the loop over the document and the rest is the loop over
  the rest, run with those lines in the journal.
\<close>

theorem unknown_kind_is_logged_and_skipped:
  assumes "Kind doc \<notin> set knownKinds"
  shows "run_state (processDoc fuel C uuid doc) s =
           (None, s\<lparr>journal := journal s @ unknownKindWarning uuid doc\<rparr>) \<and>
         run_state (forEach (processDoc fuel C uuid) (doc # rest)) s =
           run_state (forEach (processDoc fuel C uuid) rest)
             (s\<lparr>journal := journal s @ unknownKindWarning uuid doc\<rparr>)"
  using assms
  by (simp add: processDoc_def dispatch_unknown unknownKindWarning_def jot_def)

theorem unknown_kind_is_logged_and_skipped_witness:
  "Kind bogusDoc \<notin> set knownKinds \<and>
   run_state (processDoc 0 mem ''deadbeef-0000'' bogusDoc) (initial [bogusDoc] emptyStore) =
     (None, (initial [bogusDoc] emptyStore)
              \<lparr>journal := unknownKindWarning ''deadbeef-0000'' bogusDoc\<rparr>)"
proof -
  have k: "Kind bogusDoc \<notin> set knownKinds"
    by (simp add: bogusDoc_def knownKinds_def kind_defs)
  from unknown_kind_is_logged_and_skipped
    [OF k, of 0 mem "''deadbeef-0000''" "initial [bogusDoc] emptyStore" "[]"]
  show ?thesis using k by (simp add: initial_def)
qed

section \<open>Containers of a force-destroyed machine\<close>

text \<open>
  Claim C8 says that every container of the machine is force-destroyed and removed before
  the machine's own units are dealt with. \<open>cleanupContainers\<close> does that until the lookup
  of a container it has just force-destroyed reports not-found: there the loop body says
  \<open>return nil\<close>, which ends \<open>cleanupContainers\<close> with success and leaves the remaining
  containers alone. On a machine \<open>0\<close> with containers \<open>0/lxd/0\<close> and \<open>0/lxd/1\<close> and the
  unit \<open>app/0\<close>, where \<open>0/lxd/0\<close> disappears once it is dead, the handler succeeds,
  container \<open>0/lxd/1\<close> is never looked up, force-destroyed or removed and is still in the
  store at the end, and the unit of the machine has been destroyed and removed.
\<close>

theorem containers_skipped_after_missing_one:
  "fst (run_state (cleanupForceDestroyedMachine 2 mem ''0'') (initial [] hostWithContainers)) =
     Inr None \<and>
   machineEvents (journal (snd
     (run_state (cleanupForceDestroyedMachine 2 mem ''0'') (initial [] hostWithContainers)))) =
     [EvMachine ''0''
        (Inr \<lparr>Id = ''0'', Principals = [''app/0''], IsManager = False, HasVote = False\<rparr>),
      EvMachine ''0/lxd/0''
        (Inr \<lparr>Id = ''0/lxd/0'', Principals = [], IsManager = False, HasVote = False\<rparr>),
      EvExec (MachineEnsureDead ''0/lxd/0'') None,
      EvMachine ''0/lxd/0'' (Inl (NotFound ''0/lxd/0'')),
      EvMulti (UnitDestroyWithForce ''app/0'' True) ([], None),
      EvMulti (UnitRemoveWithForce ''app/0'' True) ([], None),
      EvExec (MachineEnsureDead ''0'') None] \<and>
   map fst (machinesW (world (snd
     (run_state (cleanupForceDestroyedMachine 2 mem ''0'') (initial [] hostWithContainers))))) =
     [''0'', ''0/lxd/1'']"
  by code_simp

section \<open>What handlers and the pass do to the collection\<close>

lemma dispatched_append [simp]: "dispatched (es @ fs) = dispatched es @ dispatched fs"
  by (simp add: dispatched_def)

lemma dispatched_Nil [simp]: "dispatched [] = []"
  by (simp add: dispatched_def)

lemma dispatched_handler: "list_all handlerEvent es \<Longrightarrow> dispatched es = []"
  by (induction es) (auto simp: dispatched_def handlerEvent_def split: event.splits)

lemma handlerEvent_passEvent: "handlerEvent ev \<Longrightarrow> passEvent ids ev"
  by (auto simp: handlerEvent_def passEvent_def split: event.splits)

lemma applyOp_keeps_doc:
  "d \<in> set docs \<Longrightarrow> DocID d \<notin> set (removedIds op) \<Longrightarrow> d \<in> set (applyOp docs op)"
  by (auto simp: applyOp_def removedIds_def split: txnOp.splits if_splits)

lemma foldl_applyOp_keeps_doc:
  "d \<in> set docs \<Longrightarrow> DocID d \<notin> set (concat (map removedIds ops)) \<Longrightarrow>
     d \<in> set (foldl applyOp docs ops)"
  by (induction ops arbitrary: docs) (auto simp: applyOp_keeps_doc)

lemma replay_keeps_doc:
  "list_all (passEvent ids) es \<Longrightarrow> d \<in> set docs \<Longrightarrow> DocID d \<notin> ids \<Longrightarrow>
     d \<in> set (replay docs es)"
proof (induction es arbitrary: docs)
  case Nil
  then show ?case by simp
next
  case (Cons ev es)
  have "d \<in> set (replayEvent docs ev)"
  proof (cases ev)
    case (EvTxn ops r)
    with Cons.prems show ?thesis
      by (cases r) (auto simp: passEvent_def subset_iff intro!: foldl_applyOp_keeps_doc)
  qed (use Cons.prems in auto)
  with Cons show ?case by simp
qed

lemma evolves_keeps_doc:
  "evolves (passEvent ids) s s' \<Longrightarrow> d \<in> set (cleanupsC s) \<Longrightarrow> DocID d \<notin> ids \<Longrightarrow>
     d \<in> set (cleanupsC s')"
  by (auto simp: evolves_def intro: replay_keeps_doc)

lemma keeps_scheduleForceCleanup:
  assumes "\<And>t. P (EvNow t)" "\<And>i. P (EvNewObjectId i)"
    "\<And>i d r. P (EvTxn [InsertOp cleanupsCName i d] r)"
    "\<And>e. P (EvLog Warning ''couldn't schedule %s cleanup: %v'' [V (S kind), E (Some e)])"
  shows "keeps P (scheduleForceCleanup C kind name)"
  unfolding scheduleForceCleanup_def newCleanupAtOp_def Let_def
  using assms by auto

lemmas unit_handler_defs =
  cleanupUnitStorageAttachments_def detachStorageAttachment_def
  cleanupUnitStorageInstances_def destroyStorageInstance_def prepareLeaveScope_def
  destroySubordinate_def leaveScope_def removeStorageAttachment_def
  forceRemoveUnitStorageAttachments_def destroyAliveUnit_def destroyModelStorage_def

lemmas storage_defs =
  cleanupDyingEntityStorage_def destroyHostFilesystem_def detachFilesystemAttachment_def
  removeFilesystemAttachmentNow_def removeHostFilesystem_def detachVolumeAttachment_def
  detachVolume_def cleanupDyingMachineResources_def

lemma handlerEvent_simps [simp]:
  "handlerEvent (EvUnit n ur)" "handlerEvent (EvUnitRefresh n ur)"
  "handlerEvent (EvMachine n mr)" "handlerEvent (EvMachineRefresh n mr)"
  "handlerEvent (EvExec c er)" "handlerEvent (EvMulti mc mr')" "handlerEvent (EvListing lc lr)"
  "handlerEvent (EvAttachments ac ar)" "handlerEvent (EvTest bc br)" "handlerEvent (EvStr sc sr)"
  "handlerEvent (EvNow t)" "handlerEvent (EvNewObjectId i)" "handlerEvent (EvLog l m as)"
  "handlerEvent (EvHandler k p a hr)" "\<not> handlerEvent (EvDispatch d)"
  "handlerEvent (EvTxn ops r) = (concat (map removedIds ops) = [])"
  by (simp_all add: handlerEvent_def)

lemma removedIds_simps [simp]:
  "removedIds (InsertOp c i d) = []" "removedIds (UpdateOp c i u) = []"
  "removedIds (OpaqueOp x) = []"
  "removedIds (RemoveOp c i) = (if c = cleanupsCName then [i] else [])"
  by (simp_all add: removedIds_def)

lemma concat_removedIds_opaque [simp]: "concat (map removedIds (map OpaqueOp xs)) = []"
  by (induction xs) auto

lemma h_schedule: "keeps handlerEvent (scheduleForceCleanup C kind name)"
  by (rule keeps_scheduleForceCleanup) simp_all

lemma h_dyingUnit: "keeps handlerEvent (cleanupDyingUnit C name args)"
  unfolding cleanupDyingUnit_def unit_handler_defs Let_def
  by (auto intro!: h_schedule)

lemma h_forceDestroyedUnit: "keeps handlerEvent (cleanupForceDestroyedUnit C name)"
  unfolding cleanupForceDestroyedUnit_def unit_handler_defs Let_def
  by (auto intro!: h_schedule)

lemma h_forceRemoveUnit: "keeps handlerEvent (cleanupForceRemoveUnit C name)"
  unfolding cleanupForceRemoveUnit_def by auto

lemma h_units: "keeps handlerEvent (cleanupUnitsForDyingApplication C app args)"
  unfolding cleanupUnitsForDyingApplication_def unit_handler_defs iterate_def by auto

lemma h_modelStorage: "keeps handlerEvent (cleanupStorageForDyingModel C args)"
  unfolding cleanupStorageForDyingModel_def unit_handler_defs by auto

lemma h_machineResources: "keeps handlerEvent (cleanupDyingMachineResources C m force)"
  unfolding storage_defs Let_def by auto

lemma h_dyingMachine: "keeps handlerEvent (cleanupDyingMachine C mid args)"
  unfolding cleanupDyingMachine_def by (auto intro!: h_machineResources)

lemma h_obliterateUnit: "keeps handlerEvent (obliterateUnit fuel C n force)"
  apply (induction fuel arbitrary: n)
  unfolding obliterateUnit.simps unit_handler_defs Let_def
  by auto

lemma h_finish: "keeps handlerEvent (finishForceDestroyedMachine C m)"
  unfolding finishForceDestroyedMachine_def removeVote_def Let_def
  by (auto intro!: h_machineResources)

lemma h_forceDestroyedMachine:
  "keeps handlerEvent (cleanupForceDestroyedMachine fuel C mid)"
proof (induction fuel arbitrary: mid)
  case 0
  show ?case by simp
next
  case (Suc fuel)
  have c: "keeps handlerEvent (cleanupContainers fuel C m)" for m
    unfolding cleanupContainers.simps by (auto intro!: Suc)
  show ?case
    unfolding cleanupForceDestroyedMachine.simps cleanupUpgradeSeriesLock_def
      obliteratePrincipal_def
    by (auto intro!: c h_obliterateUnit h_finish)
qed

lemma h_dispatch: "keeps handlerEvent (dispatch fuel C doc)"
  unfolding dispatch_def Let_def
  by (intro keeps_if keeps_lift keeps_return keeps_do_otherHandler h_units h_dyingUnit
        h_forceDestroyedUnit h_forceRemoveUnit h_dyingMachine h_forceDestroyedMachine
        h_modelStorage handlerEvent_simps)

lemma processDoc_run:
  "run_state (processDoc fuel C uuid doc) s =
     (case handlerRun fuel C uuid doc s of
        (Inl a, s1) \<Rightarrow> (Some (Inl a), s1)
      | (Inr (Some err), s1) \<Rightarrow> (None, jot (cleanupFailed uuid doc err) s1)
      | (Inr None, s1) \<Rightarrow>
          (case RunTransaction C (removal doc) (world s1) of
             (None, w') \<Rightarrow>
               (None, jot (EvTxn (removal doc) None)
                        (s1\<lparr>world := w',
                            cleanupsC := filter (\<lambda>d. DocID d \<noteq> DocID doc) (cleanupsC s1)\<rparr>))
           | (Some terr, w') \<Rightarrow>
               (Some (Inr (Some (cannotRemove terr))),
                jot (EvTxn (removal doc) (Some terr)) (s1\<lparr>world := w'\<rparr>))))"
  by (simp add: processDoc_def handlerRun_def applyOp_def AnnotateN_def cleanupFailed_def
        removal_def cannotRemove_def
      split: prod.splits sum.splits option.splits)

lemma handlerRun_evolves:
  assumes "handlerRun fuel C uuid doc s = (hr, s1)"
  shows "\<exists>es. journal s1 = journal s @ EvLog Debug ''model %v cleanup: %v(%q)''
                  [V (S (take 6 uuid)), V (S (Kind doc)), V (S (Prefix doc))] # EvDispatch doc # es \<and>
              list_all handlerEvent es \<and> cleanupsC s1 = replay (cleanupsC s) es \<and>
              modelUUID s1 = modelUUID s"
proof -
  from assms keepsD [OF h_dispatch]
  have "evolves handlerEvent
          (jot (EvDispatch doc)
            (jot (EvLog Debug ''model %v cleanup: %v(%q)''
                   [V (S (take 6 uuid)), V (S (Kind doc)), V (S (Prefix doc))]) s)) s1"
    unfolding handlerRun_def by blast
  then show ?thesis
    by (auto simp: evolves_def jot_def)
qed

lemma replay_handler_keeps:
  "list_all handlerEvent es \<Longrightarrow> d \<in> set docs \<Longrightarrow> d \<in> set (replay docs es)"
  by (rule replay_keeps_doc [where ids = "{}"])
     (auto simp: list_all_iff intro: handlerEvent_passEvent)

lemma passEvent_simps [simp]:
  "passEvent ids (EvLog l m as)" "passEvent ids (EvDispatch d)" "passEvent ids (EvNow t)"
  "passEvent ids (EvExec c er)"
  "passEvent ids (EvTxn ops r) = (set (concat (map removedIds ops)) \<subseteq> ids)"
  by (simp_all add: passEvent_def)

lemma processDoc_effect:
  assumes "run_state (processDoc fuel C uuid doc) s = (r, s')"
  shows "evolves (passEvent {DocID doc}) s s' \<and> dispatched (since s s') = [doc] \<and>
         (\<forall>v. r = Some (Inr v) \<longrightarrow>
            (\<exists>terr. v = Some (cannotRemove terr) \<and>
                    EvTxn (removal doc) (Some terr) \<in> set (since s s')))"
proof -
  obtain hr s1 where h: "handlerRun fuel C uuid doc s = (hr, s1)"
    by (cases "handlerRun fuel C uuid doc s")
  from handlerRun_evolves [OF h] obtain es where
    j: "journal s1 = journal s @ EvLog Debug ''model %v cleanup: %v(%q)''
          [V (S (take 6 uuid)), V (S (Kind doc)), V (S (Prefix doc))] # EvDispatch doc # es"
    and es: "list_all handlerEvent es" and c: "cleanupsC s1 = replay (cleanupsC s) es"
    and u: "modelUUID s1 = modelUUID s"
    by blast
  have pes: "list_all (passEvent {DocID doc}) es"
    using es by (auto simp: list_all_iff intro: handlerEvent_passEvent)
  have d0: "dispatched es = []" using es by (rule dispatched_handler)
  have fl: "foldl applyOp docs (removal doc) = filter (\<lambda>d. DocID d \<noteq> DocID doc) docs" for docs
    by (simp add: removal_def applyOp_def)
  show ?thesis
    using assms h j pes d0 c u
    unfolding processDoc_run
    by (auto simp: evolves_def jot_def since_def dispatched_def cleanupFailed_def fl
          removal_def applyOp_def
        split: sum.splits option.splits prod.splits)
qed

lemma passEvent_mono: "passEvent ids ev \<Longrightarrow> ids \<subseteq> ids' \<Longrightarrow> passEvent ids' ev"
  by (auto simp: passEvent_def split: event.splits)

lemma pass_loop:
  "run_state (forEach (processDoc fuel C uuid) docs) s = (r, s') \<Longrightarrow>
     evolves (passEvent (DocID ` set docs)) s s' \<and>
     take (length (dispatched (since s s'))) docs = dispatched (since s s') \<and>
     (r = None \<longrightarrow> dispatched (since s s') = docs) \<and>
     (\<forall>v. r = Some (Inr v) \<longrightarrow>
        (\<exists>terr d. d \<in> set docs \<and> v = Some (cannotRemove terr) \<and>
                  EvTxn (removal d) (Some terr) \<in> set (since s s')))"
proof (induction docs arbitrary: s r s')
  case Nil
  then show ?case by simp
next
  case (Cons doc rest)
  obtain r1 s1 where p: "run_state (processDoc fuel C uuid doc) s = (r1, s1)"
    by (cases "run_state (processDoc fuel C uuid doc) s")
  note e1 = processDoc_effect [OF p]
  then have ev1: "evolves (passEvent (DocID ` set (doc # rest))) s s1"
    by (auto elim!: evolves_mono intro: passEvent_mono)
  show ?case
  proof (cases r1)
    case (Some v)
    with Cons.prems p have "r = Some v" "s' = s1" by simp_all
    with e1 ev1 Some show ?thesis by (auto 4 4)
  next
    case None
    with Cons.prems p have l: "run_state (forEach (processDoc fuel C uuid) rest) s1 = (r, s')"
      by simp
    note ih = Cons.IH [OF l]
    then have ev2: "evolves (passEvent (DocID ` set (doc # rest))) s1 s'"
      by (auto elim!: evolves_mono intro: passEvent_mono)
    have sn: "since s s' = since s s1 @ since s1 s'"
      using ev1 ev2 by (rule since_trans)
    from ev1 ev2 have "evolves (passEvent (DocID ` set (doc # rest))) s s'"
      by (rule evolves_trans)
    with e1 ih sn None show ?thesis by (auto 4 4)
  qed
qed

lemma closeIter_effect:
  assumes "run_state (closeIter C i errOut m) s = (r, s')"
  shows "evolves (passEvent ids) s s' \<and> dispatched (since s s') = [] \<and>
         (r = errOut \<or>
          (errOut = None \<and> (\<exists>cerr. r = Some (Annotate cerr m []) \<and>
              EvExec (IterClose i) (Some cerr) \<in> set (since s s'))))"
  using assms
  by (auto simp: closeIter_def do_exec_def Let_def evolves_def jot_def since_def
        dispatched_def AnnotateN_def
      split: prod.splits if_splits)

lemma Cleanup_effect:
  assumes "run_state (Cleanup fuel C) s = (r, s')"
  shows "evolves (passEvent (DocID ` set (filter (due (Now C (world s))) (cleanupsC s)))) s s' \<and>
     take (length (dispatched (since s s'))) (filter (due (Now C (world s))) (cleanupsC s)) =
       dispatched (since s s') \<and>
     (r = Inr None \<longrightarrow>
        dispatched (since s s') = filter (due (Now C (world s))) (cleanupsC s)) \<and>
     (\<forall>err. r = Inr (Some err) \<longrightarrow>
        (\<exists>terr d. d \<in> set (cleanupsC s) \<and> err = cannotRemove terr \<and>
                  EvTxn (removal d) (Some terr) \<in> set (since s s')) \<or>
        (\<exists>cerr. err = readingFailed cerr \<and>
                EvExec (IterClose cleanupsCName) (Some cerr) \<in> set (since s s')))"
proof (cases "length (modelUUID s) < 6")
  case True
  with assms show ?thesis by (auto simp: Cleanup_def)
next
  case False
  let ?now = "Now C (world s)"
  let ?docs = "filter (due ?now) (cleanupsC s)"
  let ?P = "passEvent (DocID ` set ?docs)"
  let ?s0 = "jot (EvNow ?now) s"
  obtain rl s1 where l:
    "run_state (forEach (processDoc fuel C (modelUUID s)) ?docs) ?s0 = (rl, s1)"
    by (cases "run_state (forEach (processDoc fuel C (modelUUID s)) ?docs) ?s0")
  note pl = pass_loop [OF l]
  have e0: "evolves ?P s ?s0" by (rule evolves_jot) (simp_all add: isTxn_def)
  have d0: "since s ?s0 = [EvNow ?now]" by (simp add: since_def jot_def)
  have c0: "cleanupsC ?s0 = cleanupsC s" by (simp add: jot_def)
  from pl have e1: "evolves ?P ?s0 s1" by (simp add: c0)
  obtain errOut where eo: "errOut = (case rl of Some (Inr e) \<Rightarrow> e | _ \<Rightarrow> None)" by simp
  obtain r2 where c: "run_state (closeIter C cleanupsCName errOut ''reading cleanup document'') s1 = (r2, s')"
    and rr: "r = (case rl of Some (Inl a) \<Rightarrow> Inl a | _ \<Rightarrow> Inr r2)"
    using assms False l eo
    by (auto simp: Cleanup_def clockNow_def split: option.splits sum.splits prod.splits)
  note ce = closeIter_effect [OF c, of "DocID ` set ?docs"]
  then have e2: "evolves ?P s1 s'" by simp
  have e01: "evolves ?P s s1" using e0 e1 by (rule evolves_trans)
  have sn: "since s s' = EvNow ?now # since ?s0 s1 @ since s1 s'"
    using since_trans [OF e01 e2] since_trans [OF e0 e1] d0 by simp
  have dd: "dispatched (since s s') = dispatched (since ?s0 s1)"
    using ce by (simp add: sn dispatched_def)
  have ev: "evolves ?P s s'" using e01 e2 by (rule evolves_trans)
  have p1: "take (length (dispatched (since s s'))) ?docs = dispatched (since s s')"
    using pl by (simp add: dd c0)
  have p2: "r = Inr None \<longrightarrow> dispatched (since s s') = ?docs"
  proof
    assume "r = Inr None"
    with rr ce eo pl have "rl = None"
      by (auto simp: cannotRemove_def split: option.splits sum.splits)
    with pl show "dispatched (since s s') = ?docs" by (simp add: dd c0)
  qed
  have p3: "\<forall>err. r = Inr (Some err) \<longrightarrow>
        (\<exists>terr d. d \<in> set (cleanupsC s) \<and> err = cannotRemove terr \<and>
                  EvTxn (removal d) (Some terr) \<in> set (since s s')) \<or>
        (\<exists>cerr. err = readingFailed cerr \<and>
                EvExec (IterClose cleanupsCName) (Some cerr) \<in> set (since s s'))"
  proof (intro allI impI)
    fix err assume re: "r = Inr (Some err)"
    from ce consider (a) "r2 = errOut" | (b) cerr where "errOut = None"
      "r2 = Some (Annotate cerr ''reading cleanup document'' [])"
      "EvExec (IterClose cleanupsCName) (Some cerr) \<in> set (since s1 s')"
      by blast
    then show "(\<exists>terr d. d \<in> set (cleanupsC s) \<and> err = cannotRemove terr \<and>
                  EvTxn (removal d) (Some terr) \<in> set (since s s')) \<or>
        (\<exists>cerr. err = readingFailed cerr \<and>
                EvExec (IterClose cleanupsCName) (Some cerr) \<in> set (since s s'))"
    proof cases
      case a
      with re rr eo obtain v where "rl = Some (Inr v)" "v = Some err"
        by (auto split: option.splits sum.splits)
      with pl obtain terr d where "d \<in> set ?docs" "err = cannotRemove terr"
        "EvTxn (removal d) (Some terr) \<in> set (since ?s0 s1)"
        by (auto simp: c0)
      then show ?thesis by (auto simp: sn)
    next
      case b
      with re rr have "err = readingFailed cerr"
        by (auto simp: readingFailed_def split: option.splits sum.splits)
      with b show ?thesis by (auto simp: sn)
    qed
  qed
  from ev p1 p2 p3 show ?thesis by blast
qed

section \<open>The run loop\<close>

text \<open>
  Claim C1. What the loop body of \<open>Cleanup\<close> does with a due document is decided by
  what the handler returned. When the handler returned an error, the body logs the warning
  "cleanup failed ..." carrying that error and goes on with the next document: it runs no
  transaction of its own, the handler's transactions remove no cleanup document, so the
  document is still in the collection. When the handler returned nil, the body runs the
  transaction removing the document: if it commits, the document is gone and the loop goes
  on; if it fails, \<open>Cleanup\<close> returns that failure annotated "cannot remove empty
  cleanup document". A non-nil error returned by \<open>Cleanup\<close> is always such a failed
  removal, or the failure of closing the iterator annotated "reading cleanup document";
  it is never the error of a handler.
\<close>

theorem handler_outcome_decides_removal:
  "(case handlerRun fuel C uuid doc s of
      (Inl a, s1) \<Rightarrow> run_state (processDoc fuel C uuid doc) s = (Some (Inl a), s1)
    | (Inr (Some err), s1) \<Rightarrow>
        run_state (processDoc fuel C uuid doc) s = (None, jot (cleanupFailed uuid doc err) s1) \<and>
        (doc \<in> set (cleanupsC s) \<longrightarrow> doc \<in> set (cleanupsC s1)) \<and>
        run_state (forEach (processDoc fuel C uuid) (doc # rest)) s =
          run_state (forEach (processDoc fuel C uuid) rest)
            (jot (cleanupFailed uuid doc err) s1)
    | (Inr None, s1) \<Rightarrow>
        (case RunTransaction C (removal doc) (world s1) of
           (None, w') \<Rightarrow>
             run_state (processDoc fuel C uuid doc) s =
               (None, jot (EvTxn (removal doc) None)
                        (s1\<lparr>world := w',
                            cleanupsC := filter (\<lambda>d. DocID d \<noteq> DocID doc) (cleanupsC s1)\<rparr>))
         | (Some terr, w') \<Rightarrow>
             run_state (processDoc fuel C uuid doc) s =
               (Some (Inr (Some (cannotRemove terr))),
                jot (EvTxn (removal doc) (Some terr)) (s1\<lparr>world := w'\<rparr>)))) \<and>
   (\<forall>err s'. run_state (Cleanup fuel C) s = (Inr (Some err), s') \<longrightarrow>
      (\<exists>terr d. d \<in> set (cleanupsC s) \<and> err = cannotRemove terr \<and>
                EvTxn (removal d) (Some terr) \<in> set (since s s')) \<or>
      (\<exists>cerr. err = readingFailed cerr \<and>
              EvExec (IterClose cleanupsCName) (Some cerr) \<in> set (since s s')))"
proof (rule conjI)
  obtain hr s1 where h: "handlerRun fuel C uuid doc s = (hr, s1)"
    by (cases "handlerRun fuel C uuid doc s")
  from handlerRun_evolves [OF h] obtain es where
    es: "list_all handlerEvent es" and c: "cleanupsC s1 = replay (cleanupsC s) es"
    by blast
  have keep: "doc \<in> set (cleanupsC s) \<longrightarrow> doc \<in> set (cleanupsC s1)"
    using es c by (auto intro: replay_handler_keeps)
  show "case handlerRun fuel C uuid doc s of
      (Inl a, s1) \<Rightarrow> run_state (processDoc fuel C uuid doc) s = (Some (Inl a), s1)
    | (Inr (Some err), s1) \<Rightarrow>
        run_state (processDoc fuel C uuid doc) s = (None, jot (cleanupFailed uuid doc err) s1) \<and>
        (doc \<in> set (cleanupsC s) \<longrightarrow> doc \<in> set (cleanupsC s1)) \<and>
        run_state (forEach (processDoc fuel C uuid) (doc # rest)) s =
          run_state (forEach (processDoc fuel C uuid) rest)
            (jot (cleanupFailed uuid doc err) s1)
    | (Inr None, s1) \<Rightarrow>
        (case RunTransaction C (removal doc) (world s1) of
           (None, w') \<Rightarrow>
             run_state (processDoc fuel C uuid doc) s =
               (None, jot (EvTxn (removal doc) None)
                        (s1\<lparr>world := w',
                            cleanupsC := filter (\<lambda>d. DocID d \<noteq> DocID doc) (cleanupsC s1)\<rparr>))
         | (Some terr, w') \<Rightarrow>
             run_state (processDoc fuel C uuid doc) s =
               (Some (Inr (Some (cannotRemove terr))),
                jot (EvTxn (removal doc) (Some terr)) (s1\<lparr>world := w'\<rparr>)))"
    using keep h
    by (simp add: processDoc_run split: sum.splits option.splits prod.splits)
next
  show "\<forall>err s'. run_state (Cleanup fuel C) s = (Inr (Some err), s') \<longrightarrow>
      (\<exists>terr d. d \<in> set (cleanupsC s) \<and> err = cannotRemove terr \<and>
                EvTxn (removal d) (Some terr) \<in> set (since s s')) \<or>
      (\<exists>cerr. err = readingFailed cerr \<and>
              EvExec (IterClose cleanupsCName) (Some cerr) \<in> set (since s s'))"
    using Cleanup_effect by blast
qed

theorem handler_outcome_decides_removal_witness:
  "badArgsDoc \<in> set (cleanupsC (initial [badArgsDoc, goneUnitDoc] brokenTxns)) \<and>
   run_state (processDoc 1 mem ''deadbeef-0000'' badArgsDoc)
       (initial [badArgsDoc, goneUnitDoc] brokenTxns) =
     (None, jot (cleanupFailed ''deadbeef-0000'' badArgsDoc
                   (Errorf ''expected 0-2 arguments, got %d'' [N 3]))
              (entered ''deadbeef-0000'' badArgsDoc (initial [badArgsDoc, goneUnitDoc] brokenTxns))) \<and>
   badArgsDoc \<in> set (cleanupsC
     (entered ''deadbeef-0000'' badArgsDoc (initial [badArgsDoc, goneUnitDoc] brokenTxns))) \<and>
   fst (run_state (Cleanup 1 mem) (initial [badArgsDoc, goneUnitDoc] brokenTxns)) =
     Inr (Some (cannotRemove (Failure ''txn''))) \<and>
   ((\<exists>terr d. d \<in> set (cleanupsC (initial [badArgsDoc, goneUnitDoc] brokenTxns)) \<and>
        cannotRemove (Failure ''txn'') = cannotRemove terr \<and>
        EvTxn (removal d) (Some terr) \<in> set (since (initial [badArgsDoc, goneUnitDoc] brokenTxns)
          (snd (run_state (Cleanup 1 mem) (initial [badArgsDoc, goneUnitDoc] brokenTxns))))) \<or>
    (\<exists>cerr. cannotRemove (Failure ''txn'') = readingFailed cerr \<and>
        EvExec (IterClose cleanupsCName) (Some cerr) \<in> set (since
          (initial [badArgsDoc, goneUnitDoc] brokenTxns)
          (snd (run_state (Cleanup 1 mem) (initial [badArgsDoc, goneUnitDoc] brokenTxns))))))"
proof -
  let ?s = "initial [badArgsDoc, goneUnitDoc] brokenTxns"
  let ?u = "''deadbeef-0000''"
  have m: "badArgsDoc \<in> set (cleanupsC ?s)" by (simp add: initial_def)
  have h: "handlerRun 1 mem ?u badArgsDoc ?s =
             (Inr (Some (Errorf ''expected 0-2 arguments, got %d'' [N 3])),
              entered ?u badArgsDoc ?s)"
    by (simp add: handlerRun_def entered_def dispatch_def badArgsDoc_def kind_defs lift_def
          cleanupDyingUnit_def unmarshalDestroyStorageForce_def)
  have f: "fst (run_state (Cleanup 1 mem) ?s) = Inr (Some (cannotRemove (Failure ''txn'')))"
    by code_simp
  then have c: "run_state (Cleanup 1 mem) ?s =
                  (Inr (Some (cannotRemove (Failure ''txn''))), snd (run_state (Cleanup 1 mem) ?s))"
    by (metis prod.collapse)
  note t = handler_outcome_decides_removal [of 1 mem ?u badArgsDoc ?s "[]"]
  from t h m have 1: "run_state (processDoc 1 mem ?u badArgsDoc) ?s =
     (None, jot (cleanupFailed ?u badArgsDoc (Errorf ''expected 0-2 arguments, got %d'' [N 3]))
              (entered ?u badArgsDoc ?s)) \<and>
     badArgsDoc \<in> set (cleanupsC (entered ?u badArgsDoc ?s))"
    by simp
  from t c have 2: "(\<exists>terr d. d \<in> set (cleanupsC ?s) \<and>
        cannotRemove (Failure ''txn'') = cannotRemove terr \<and>
        EvTxn (removal d) (Some terr) \<in> set (since ?s (snd (run_state (Cleanup 1 mem) ?s)))) \<or>
    (\<exists>cerr. cannotRemove (Failure ''txn'') = readingFailed cerr \<and>
        EvExec (IterClose cleanupsCName) (Some cerr) \<in> set (since ?s
          (snd (run_state (Cleanup 1 mem) ?s))))"
    by blast
  from m 1 f 2 show ?thesis by blast
qed

text \<open>
  Claim C6. The documents a pass hands to handlers are, in order, due documents of the
  collection as it was when the pass started: documents whose \<open>when\<close> is absent or
  at most the clock's time (so the zero time is due whenever the clock is not before it).
  When the pass returns nil they are all the due documents; a pass cut short by a failed
  removal or an aborted handler has handled the due documents up to there. A document whose
  \<open>when\<close> is later than the clock's time is not handed to a handler and, document ids
  being unique, is still in the collection after the pass.
\<close>

theorem pass_processes_due_documents:
  assumes "run_state (Cleanup fuel C) s = (r, s')"
  shows "take (length (dispatched (since s s'))) (filter (due (Now C (world s))) (cleanupsC s)) =
           dispatched (since s s') \<and>
     (r = Inr None \<longrightarrow> dispatched (since s s') = filter (due (Now C (world s))) (cleanupsC s)) \<and>
     (\<forall>d \<in> set (cleanupsC s). \<not> due (Now C (world s)) d \<longrightarrow>
        d \<notin> set (dispatched (since s s')) \<and>
        (distinct (map DocID (cleanupsC s)) \<longrightarrow> d \<in> set (cleanupsC s'))) \<and>
     (\<forall>d. due (Now C (world s)) d =
        (When d = None \<or> (\<exists>t. When d = Some t \<and> t \<le> Now C (world s)))) \<and>
     (asap \<le> Now C (world s) \<longrightarrow> (\<forall>d. When d = Some asap \<longrightarrow> due (Now C (world s)) d))"
proof -
  let ?now = "Now C (world s)"
  let ?docs = "filter (due ?now) (cleanupsC s)"
  note ce = Cleanup_effect [OF assms]
  have a: "take (length (dispatched (since s s'))) ?docs = dispatched (since s s')"
    using ce by blast
  have b: "r = Inr None \<longrightarrow> dispatched (since s s') = ?docs"
    using ce by blast
  have c: "\<forall>d \<in> set (cleanupsC s). \<not> due ?now d \<longrightarrow>
        d \<notin> set (dispatched (since s s')) \<and>
        (distinct (map DocID (cleanupsC s)) \<longrightarrow> d \<in> set (cleanupsC s'))"
  proof (intro ballI impI conjI)
    fix d assume d: "d \<in> set (cleanupsC s)" and nd: "\<not> due ?now d"
    have "set (dispatched (since s s')) \<subseteq> set ?docs"
      using a set_take_subset [of "length (dispatched (since s s'))" ?docs] by simp
    with nd show "d \<notin> set (dispatched (since s s'))" by auto
    assume dist: "distinct (map DocID (cleanupsC s))"
    have "DocID d \<notin> DocID ` set ?docs"
    proof
      assume "DocID d \<in> DocID ` set ?docs"
      then obtain x where x: "x \<in> set (cleanupsC s)" "due ?now x" "DocID x = DocID d" by auto
      with d dist have "x = d" by (meson distinct_map inj_onD)
      with x nd show False by simp
    qed
    with ce d show "d \<in> set (cleanupsC s')" by (blast intro: evolves_keeps_doc)
  qed
  have e: "\<forall>d. due ?now d = (When d = None \<or> (\<exists>t. When d = Some t \<and> t \<le> ?now))"
    by (auto simp: due_def split: option.splits)
  have f: "asap \<le> ?now \<longrightarrow> (\<forall>d. When d = Some asap \<longrightarrow> due ?now d)"
    by (simp add: due_def)
  from a b c e f show ?thesis by blast
qed

theorem pass_processes_due_documents_witness:
  "fst (run_state (Cleanup 1 mem) (initial [bogusDoc, goneUnitDoc, laterDoc] emptyStore)) = Inr None \<and>
   dispatched (since (initial [bogusDoc, goneUnitDoc, laterDoc] emptyStore)
     (snd (run_state (Cleanup 1 mem) (initial [bogusDoc, goneUnitDoc, laterDoc] emptyStore)))) =
     [bogusDoc, goneUnitDoc] \<and>
   laterDoc \<notin> set (dispatched (since (initial [bogusDoc, goneUnitDoc, laterDoc] emptyStore)
     (snd (run_state (Cleanup 1 mem) (initial [bogusDoc, goneUnitDoc, laterDoc] emptyStore))))) \<and>
   laterDoc \<in> set (cleanupsC
     (snd (run_state (Cleanup 1 mem) (initial [bogusDoc, goneUnitDoc, laterDoc] emptyStore))))"
proof -
  let ?s = "initial [bogusDoc, goneUnitDoc, laterDoc] emptyStore"
  have f: "fst (run_state (Cleanup 1 mem) ?s) = Inr None"
    by code_simp
  have r: "run_state (Cleanup 1 mem) ?s =
             (fst (run_state (Cleanup 1 mem) ?s), snd (run_state (Cleanup 1 mem) ?s))"
    by simp
  have n: "Now mem (world ?s) = 1000"
    by (simp add: mem_def initial_def emptyStore_def)
  have d: "filter (due 1000) (cleanupsC ?s) = [bogusDoc, goneUnitDoc]"
    by (simp add: initial_def due_def bogusDoc_def goneUnitDoc_def laterDoc_def)
  have l: "laterDoc \<in> set (cleanupsC ?s)" "\<not> due 1000 laterDoc"
    "distinct (map DocID (cleanupsC ?s))"
    by (simp_all add: initial_def due_def bogusDoc_def goneUnitDoc_def laterDoc_def)
  note t = pass_processes_due_documents [OF r, unfolded n d]
  from t f have 1: "dispatched (since ?s (snd (run_state (Cleanup 1 mem) ?s))) =
      [bogusDoc, goneUnitDoc]"
    by blast
  from t l have 2: "laterDoc \<notin> set (dispatched (since ?s (snd (run_state (Cleanup 1 mem) ?s)))) \<and>
      laterDoc \<in> set (cleanupsC (snd (run_state (Cleanup 1 mem) ?s)))"
    by blast
  from f 1 2 show ?thesis by blast
qed

end
